theory Spec2Isabelle
  imports Main "HOL-Library.Word" "HOL-Library.Signed_Division"
begin

unbundle bit_operations_syntax

section \<open>Color decompression engine (cde\_gk20a.c): data model\<close>

type_synonym u8 = "8 word"
type_synonym u32 = "32 word"
type_synonym u64 = "64 word"
type_synonym s32 = "32 word"

text \<open>
  Kernel error numbers. The functions of the driver return \<open>0\<close> or a negative errno;
  \<open>EOTHER\<close> stands for a code handed through from a function outside this file.
\<close>

datatype errno = EINVAL | ENOMEM | ENOSYS | EOTHER int

datatype status = Success | Failure errno

subsection \<open>Binary patcher: \<open>gk20a_replace_data\<close>\<close>

text \<open>
  The \<open>type\<close> argument is compared against three constants of cde\_gk20a.h; every other
  value takes the warning branch.
\<close>

datatype patch_type =
    TYPE_PARAM_TYPE_U32
  | TYPE_PARAM_TYPE_U64_LITTLE
  | TYPE_PARAM_TYPE_U64_BIG
  | TYPE_PARAM_TYPE_OTHER int

text \<open>
  \<open>value = (shift >= 0) ? value << shift : value >> -shift\<close> on a \<open>u64\<close>. C leaves
  a shift by 64 or more undefined; here all bits are shifted out.
\<close>

definition shift_value :: "s32 \<Rightarrow> u64 \<Rightarrow> u64" where
  "shift_value shift v =
     (if 0 \<le> sint shift then push_bit (nat (sint shift)) v
      else drop_bit (nat (- sint shift)) v)"

text \<open>\<open>(u64)(x >> 32) | (u64)(x << 32)\<close>\<close>

definition swap_halves :: "u64 \<Rightarrow> u64" where
  "swap_halves x = drop_bit 32 x OR push_bit 32 x"

text \<open>
  The target is addressed through a \<open>u32 *\<close> and a \<open>u64 *\<close> to the same location.
  The model passes the eight bytes at that location as one little-endian \<open>u64\<close> cell:
  \<open>*target_mem_ptr\<close> is its low half, \<open>*target_mem_ptr_u64\<close> the whole cell.
\<close>

definition read_u32 :: "u64 \<Rightarrow> u32" where
  "read_u32 cell = ucast cell"

definition write_u32 :: "u64 \<Rightarrow> u32 \<Rightarrow> u64" where
  "write_u32 cell w = (cell AND NOT 0xFFFFFFFF) OR ucast w"

definition gk20a_replace_data ::
  "patch_type \<Rightarrow> s32 \<Rightarrow> u64 \<Rightarrow> u64 \<Rightarrow> u64 \<Rightarrow> errno + u64" where
  "gk20a_replace_data type shift msk val cell =
     (let v = shift_value shift val AND msk in
      case type of
        TYPE_PARAM_TYPE_OTHER t \<Rightarrow> Inl EINVAL
      | TYPE_PARAM_TYPE_U32 \<Rightarrow>
          (let current_value = ucast (read_u32 cell) AND NOT msk;
               new_value = current_value OR v
           in Inr (write_u32 cell (ucast new_value)))
      | TYPE_PARAM_TYPE_U64_LITTLE \<Rightarrow>
          (let current_value = cell AND NOT msk;
               new_value = current_value OR v
           in Inr new_value)
      | TYPE_PARAM_TYPE_U64_BIG \<Rightarrow>
          (let current_value = swap_halves cell AND NOT msk;
               new_value = current_value OR v
           in Inr (swap_halves new_value)))"

text \<open>
  Reading the patched location back "through the same endianness": the first half of
  \<open>gk20a_replace_data\<close> (the assignment of \<open>current_value\<close>), on its own.
\<close>

definition read_target :: "patch_type \<Rightarrow> u64 \<Rightarrow> errno + u64" where
  "read_target type cell =
     (case type of
        TYPE_PARAM_TYPE_U32 \<Rightarrow> Inr (ucast (read_u32 cell))
      | TYPE_PARAM_TYPE_U64_LITTLE \<Rightarrow> Inr cell
      | TYPE_PARAM_TYPE_U64_BIG \<Rightarrow> Inr (swap_halves cell)
      | TYPE_PARAM_TYPE_OTHER t \<Rightarrow> Inl EINVAL)"

text \<open>The bits of a \<open>u64\<close> that a patch of the given type can store.\<close>

definition type_width_mask :: "patch_type \<Rightarrow> u64" where
  "type_width_mask type = (case type of TYPE_PARAM_TYPE_U32 \<Rightarrow> 0xFFFFFFFF | _ \<Rightarrow> - 1)"

subsection \<open>Constants, macros and layouts of headers that are not part of the sources\<close>

text \<open>
  The \<open>switch\<close> of \<open>gk20a_cde_patch_params\<close> compares \<open>param->id\<close> against the
  \<open>TYPE_PARAM_*\<close> enumerators of cde\_gk20a.h; \<open>TYPE_PARAM_DEFAULT\<close> is its
  \<open>default:\<close> branch.
\<close>

datatype param_id =
    TYPE_PARAM_COMPTAGS_PER_CACHELINE
  | TYPE_PARAM_GPU_CONFIGURATION
  | TYPE_PARAM_FIRSTPAGEOFFSET
  | TYPE_PARAM_NUMPAGES
  | TYPE_PARAM_BACKINGSTORE
  | TYPE_PARAM_DESTINATION
  | TYPE_PARAM_DESTINATION_SIZE
  | TYPE_PARAM_BACKINGSTORE_SIZE
  | TYPE_PARAM_SOURCE_SMMU_ADDR
  | TYPE_PARAM_BACKINGSTORE_BASE_HW
  | TYPE_PARAM_DEFAULT

text \<open>
  The values the sources use but do not define are parameters of the model:
  the array bounds, \<open>ARRAY_SIZE(cde_app->cde_ctx)\<close> (\<open>NUM_CDE_CTX\<close>),
  \<open>sizeof(struct gk20a_cde_hdr_elem)\<close>, the enumerator behind a numeric parameter id,
  the \<open>pbdma_gp_entry1_length_f\<close> macro and the flag and compbits constants of the
  nvhost user interface.
\<close>

record cde_config =
  MAX_CDE_BUFS :: nat
  MAX_CDE_PARAMS :: nat
  MAX_CDE_OBJ_IDS :: nat
  MAX_CDE_USER_PARAMS :: int
  NUM_RESERVED_PARAMS :: u32
  NUM_CDE_CTX :: nat
  SIZEOF_HDR_ELEM :: u32
  param_id_of :: "u32 \<Rightarrow> param_id"
  pbdma_gp_entry1_length_f :: "u32 \<Rightarrow> u32"
  NVHOST_GPU_COMPBITS_GPU :: u32
  NVHOST_GPU_COMPBITS_CDEH :: u32
  NVHOST_GPU_COMPBITS_CDEV :: u32
  NVHOST_SUBMIT_GPFIFO_FLAGS_FENCE_GET :: u32

text \<open>
  Modelled from the spec: the constant \<open>NVHOST_GPU_COMPBITS_NONE\<close> of the nvhost user
  interface header, which is not part of the sources; the spec gives the request for "none"
  as \<open>requested=0\<close>.
\<close>

definition NVHOST_GPU_COMPBITS_NONE :: u32 where
  "NVHOST_GPU_COMPBITS_NONE = 0"

subsection \<open>Firmware image\<close>

text \<open>
  The structures of cde\_gk20a.h, with the fields the code reads. \<open>size_t\<close> is taken as 64
  bits wide, and the byte offsets of the image, which the code adds to and compares with
  unsigned sizes, as the unsigned 64-bit values those operations see.
\<close>

record hdr_buf =
  data_byte_offset :: u64
  num_bytes :: u64

record hdr_replace =
  rep_target_buf :: u32
  rep_source_buf :: u32
  rep_shift :: s32
  rep_type :: patch_type
  rep_target_byte_offset :: u64
  rep_source_byte_offset :: u64
  rep_mask :: u64

record hdr_param =
  par_id :: u32
  par_target_buf :: u32
  par_shift :: s32
  par_type :: patch_type
  par_data_offset :: u64
  par_target_byte_offset :: u64
  par_mask :: u64

datatype cmd_op =
    TYPE_BUF_COMMAND_INIT
  | TYPE_BUF_COMMAND_CONVERT
  | TYPE_BUF_COMMAND_OTHER u32

record hdr_command =
  cmd_op :: cmd_op
  cmd_num_entries :: u32
  cmd_data_byte_offset :: u64

record cmd_elem =
  ce_target_buf :: u32
  ce_target_byte_offset :: u64
  ce_num_bytes :: u64

text \<open>\<open>struct gk20a_cde_hdr_elem\<close>: the \<open>type\<close> discriminant and the union it selects.\<close>

datatype hdr_elem =
    TYPE_BUF hdr_buf
  | TYPE_REPLACE hdr_replace
  | TYPE_PARAM hdr_param
  | TYPE_REQUIRED_CLASS u32
  | TYPE_COMMAND hdr_command
  | TYPE_UNKNOWN u32

text \<open>
  \<open>struct firmware\<close>, read the way \<open>gk20a_init_cde_img\<close> reads it: \<open>fw_size\<close> is
  \<open>img->size\<close>, \<open>fw_version\<close> and \<open>fw_num_of_elems\<close> are \<open>data[0]\<close> and
  \<open>data[1]\<close>, \<open>fw_elem i\<close> is the \<open>i\<close>-th element of the array at \<open>&data[2]\<close>,
  \<open>fw_cmd_elem off j\<close> the \<open>j\<close>-th command element of the array at
  \<open>&img->data[off]\<close>, and \<open>fw_data\<close> the bytes \<open>img->data\<close>.
\<close>

record firmware =
  fw_size :: u64
  fw_version :: u32
  fw_num_of_elems :: u32
  fw_elem :: "nat \<Rightarrow> hdr_elem"
  fw_cmd_elem :: "u64 \<Rightarrow> nat \<Rightarrow> cmd_elem"
  fw_data :: "nat \<Rightarrow> u8"

subsection \<open>Context\<close>

text \<open>
  \<open>struct gk20a_cde_mem_desc\<close>. Pointers are numbers, \<open>0\<close> for \<open>NULL\<close>.
  \<open>content\<close> is the memory at \<open>cpuva\<close>, seen as the \<open>u32\<close> array that the patcher
  indexes (little-endian); words at \<open>4 * k \<ge> md_num_bytes\<close> lie behind the buffer.
\<close>

record mem_desc =
  sgt :: nat
  iova :: u64
  cpuva :: nat
  md_num_bytes :: u64
  gpu_va :: u64
  content :: "nat \<Rightarrow> u32"

record nvhost_gpfifo =
  entry0 :: u32
  entry1 :: u32

text \<open>
  \<open>struct gk20a_cde_ctx\<close>. The arrays \<open>mem\<close>, \<open>params\<close> and \<open>obj_ids\<close> are
  functions of the index; an index at or above the array bound of cde\_gk20a.h is outside
  the C array. \<open>init_cmd\<close> and \<open>convert_cmd\<close> are the pointers, \<open>init_cmd_entries\<close>
  and \<open>convert_cmd_entries\<close> the arrays they point to.
\<close>

record cde_ctx =
  ch :: nat
  vm :: nat
  backing_store_vaddr :: u64
  mem :: "nat \<Rightarrow> mem_desc"
  num_bufs :: nat
  params :: "nat \<Rightarrow> hdr_param"
  num_params :: nat
  obj_ids :: "nat \<Rightarrow> u32"
  num_obj_ids :: nat
  init_cmd :: nat
  init_cmd_entries :: "nvhost_gpfifo list"
  init_cmd_num_entries :: u32
  convert_cmd :: nat
  convert_cmd_entries :: "nvhost_gpfifo list"
  convert_cmd_num_entries :: u32
  src_vaddr :: u64
  src_param_offset :: u32
  src_param_lines :: u32
  dest_vaddr :: u64
  dest_size :: u64
  user_param_values :: "nat \<Rightarrow> u32"

subsection \<open>The kernel around the driver\<close>

text \<open>
  The argument that \<open>dma_free_coherent\<close> receives as CPU address: the pointer stored
  in the descriptor (\<open>mem->cpuva\<close>) or the address of the descriptor's field
  (\<open>&mem->cpuva\<close>) of the buffer slot with the given index.
\<close>

datatype cpu_addr = Cpuva nat | Addr_of_cpuva nat

text \<open>
  Every call that leaves the file is recorded, in order, with the arguments that identify
  the resource. The pool mutex is \<open>cde_app->mutex\<close>, the state lock \<open>state->lock\<close>.
  \<open>Kfree_sgt i\<close> is \<open>kfree(mem->sgt)\<close> for buffer slot \<open>i\<close>, called after
  \<open>gk20a_free_sgtable(&mem->sgt)\<close> had the address of that field.
\<close>

datatype event =
    Dma_alloc_coherent u64
  | Dma_free_coherent u64 cpu_addr u64
  | Get_sgtable nat u64 u64
  | Free_sgtable nat
  | Kfree nat
  | Kfree_sgt nat
  | Gmmu_map nat u64
  | Gmmu_unmap u64 u64
  | Alloc_obj_ctx nat u32
  | Free_obj_ctx nat u32
  | Kzalloc nat
  | Request_firmware
  | Release_firmware
  | Open_new_channel
  | Free_channel nat
  | Vm_get nat
  | Vm_put nat
  | Commit_va nat
  | Alloc_channel_gpfifo nat
  | Mutex_init
  | Mutex_lock
  | Mutex_unlock
  | Busy
  | Idle
  | Dmabuf_alloc_drvdata nat
  | Get_dma_buf nat
  | Dma_buf_put nat
  | Vm_map nat
  | Vm_unmap u64
  | Channel_finish nat
  | Channel_disable nat
  | Fifo_preempt_channel nat
  | Channel_unbind nat
  | Load_golden_ctx_image nat
  | Bind_channel nat
  | Channel_enable nat
  | Get_comptags nat
  | Gpuva_to_iova u64
  | Submit_channel_gpfifo nat "nvhost_gpfifo list" u32 u32
  | Dma_buf_get u32
  | Dmabuf_get_state nat u64
  | State_lock
  | State_unlock
  | Fence_put nat
  | Fence_get nat

text \<open>\<open>struct dma_buf\<close>: the identity of the buffer and its \<open>size\<close>.\<close>

record dma_buf =
  db_id :: nat
  db_size :: u64

text \<open>
  What the kernel answers. Each answer is a function of the number of calls made so far
  (the length of the record of events), so that the same call may succeed once and fail
  later. A pointer or address \<open>0\<close> is \<open>NULL\<close>. \<open>e_has_timedout\<close> is the flag
  \<open>ch->has_timedout\<close> of the channel at that moment. \<open>e_uninitialised\<close> is what an
  \<open>int\<close> local without initialiser holds when it is returned before any assignment
  (\<open>err\<close> of \<open>gk20a_cde_reload\<close> and \<open>ret\<close> of \<open>gk20a_cde_destroy\<close>, if the pool
  had no slot).
\<close>

record env =
  e_dma_alloc_coherent :: "nat \<Rightarrow> nat \<times> u64"
  e_get_sgtable :: "nat \<Rightarrow> status \<times> nat"
  e_gmmu_map :: "nat \<Rightarrow> u64"
  e_alloc_obj_ctx :: "nat \<Rightarrow> status \<times> u32"
  e_kzalloc :: "nat \<Rightarrow> nat"
  e_request_firmware :: "nat \<Rightarrow> firmware option"
  e_open_new_channel :: "nat \<Rightarrow> nat"
  e_commit_va :: "nat \<Rightarrow> status"
  e_alloc_channel_gpfifo :: "nat \<Rightarrow> status"
  e_dmabuf_alloc_drvdata :: "nat \<Rightarrow> status"
  e_vm_map :: "nat \<Rightarrow> u64"
  e_has_timedout :: "nat \<Rightarrow> bool"
  e_channel_finish :: "nat \<Rightarrow> status"
  e_get_comptags :: "nat \<Rightarrow> u32 \<times> u32"
  e_gpuva_to_iova :: "nat \<Rightarrow> u64"
  e_submit_channel_gpfifo :: "nat \<Rightarrow> status \<times> nat"
  e_dma_buf_get :: "nat \<Rightarrow> dma_buf option"
  e_dmabuf_get_state :: "nat \<Rightarrow> status"
  e_uninitialised :: status

subsection \<open>Tear-down of a context: \<open>gk20a_deinit_cde_img\<close>\<close>

definition deinit_buf :: "mem_desc \<Rightarrow> event list" where
  "deinit_buf m =
     [Gmmu_unmap (gpu_va m) (md_num_bytes m),
      Free_sgtable (sgt m),
      Dma_free_coherent (md_num_bytes m) (Cpuva (cpuva m)) (iova m)]"

definition gk20a_deinit_cde_img :: "cde_ctx \<Rightarrow> event list \<Rightarrow> cde_ctx \<times> event list" where
  "gk20a_deinit_cde_img ctx tr =
     (ctx\<lparr>convert_cmd := 0, init_cmd := 0, num_bufs := 0, num_obj_ids := 0,
          num_params := 0, init_cmd_num_entries := 0, convert_cmd_num_entries := 0\<rparr>,
      tr @ concat (map (\<lambda>i. deinit_buf (mem ctx i)) [0..<num_bufs ctx])
         @ map (\<lambda>i. Free_obj_ctx (ch ctx) (obj_ids ctx i)) [0..<num_obj_ids ctx]
         @ [Kfree (init_cmd ctx), Kfree (convert_cmd ctx)])"

subsection \<open>Buffer allocator: \<open>gk20a_init_cde_buf\<close>\<close>

text \<open>
  \<open>memcpy(mem->cpuva, img->data + off, n)\<close> into the \<open>u32\<close> view of the buffer:
  byte \<open>j\<close> of word \<open>k\<close> is byte \<open>4 * k + j\<close> of the buffer.
\<close>

definition byte_of :: "u32 \<Rightarrow> nat \<Rightarrow> u8" where
  "byte_of w j = ucast (drop_bit (8 * j) w)"

definition le32 :: "(nat \<Rightarrow> u8) \<Rightarrow> u32" where
  "le32 b = ucast (b 0) OR push_bit 8 (ucast (b 1)) OR push_bit 16 (ucast (b 2))
            OR push_bit 24 (ucast (b 3))"

definition memcpy_img :: "(nat \<Rightarrow> u32) \<Rightarrow> (nat \<Rightarrow> u8) \<Rightarrow> nat \<Rightarrow> nat \<Rightarrow> nat \<Rightarrow> u32" where
  "memcpy_img dst src off n =
     (\<lambda>k. le32 (\<lambda>j. if 4 * k + j < n then src (off + 4 * k + j) else byte_of (dst k) j))"

definition gk20a_init_cde_buf ::
  "cde_config \<Rightarrow> env \<Rightarrow> firmware \<Rightarrow> hdr_buf \<Rightarrow> cde_ctx \<Rightarrow> event list
     \<Rightarrow> status \<times> cde_ctx \<times> event list" where
  "gk20a_init_cde_buf cfg env img buf ctx tr =
     (if data_byte_offset buf \<noteq> 0 \<and> data_byte_offset buf + num_bytes buf > fw_size img
      then (Failure EINVAL, ctx, tr)
      else if num_bufs ctx > MAX_CDE_BUFS cfg
      then (Failure ENOMEM, ctx, tr)
      else
        let i = num_bufs ctx;
            (va, io) = e_dma_alloc_coherent env (length tr);
            m1 = (mem ctx i)\<lparr>md_num_bytes := num_bytes buf, cpuva := va, iova := io\<rparr>;
            ctx1 = ctx\<lparr>mem := (mem ctx)(i := m1)\<rparr>;
            tr1 = tr @ [Dma_alloc_coherent (num_bytes buf)]
        in if va = 0 then (Failure ENOMEM, ctx1, tr1)
        else
          let (err, sg) = e_get_sgtable env (length tr1);
              m2 = m1\<lparr>sgt := sg\<rparr>;
              ctx2 = ctx\<lparr>mem := (mem ctx)(i := m2)\<rparr>;
              tr2 = tr1 @ [Get_sgtable va io (num_bytes buf)]
          in if err \<noteq> Success
             then (Failure ENOMEM, ctx2,
                   tr2 @ [Dma_free_coherent (num_bytes buf) (Addr_of_cpuva i) io])
          else
            let gva = e_gmmu_map env (length tr2);
                m3 = m2\<lparr>gpu_va := gva\<rparr>;
                ctx3 = ctx\<lparr>mem := (mem ctx)(i := m3)\<rparr>;
                tr3 = tr2 @ [Gmmu_map sg (num_bytes buf)]
            in if gva = 0
               then (Failure ENOMEM, ctx3,
                     tr3 @ [Free_sgtable sg, Kfree_sgt i,
                            Dma_free_coherent (num_bytes buf) (Addr_of_cpuva i) io])
            else
              let m4 = (if data_byte_offset buf \<noteq> 0
                        then m3\<lparr>content := memcpy_img (content m3) (fw_data img)
                                   (unat (data_byte_offset buf)) (unat (num_bytes buf))\<rparr>
                        else m3)
              in (Success, ctx\<lparr>mem := (mem ctx)(i := m4), num_bufs := i + 1\<rparr>, tr3))"

subsection \<open>Static relocations: \<open>gk20a_init_cde_replace\<close>\<close>

text \<open>
  The eight bytes at \<open>target_mem_ptr\<close>, where \<open>target_mem_ptr\<close> is the \<open>u32\<close> pointer
  \<open>cpuva + k\<close>, and the store of such a cell.
\<close>

definition cell_at :: "(nat \<Rightarrow> u32) \<Rightarrow> nat \<Rightarrow> u64" where
  "cell_at c k = push_bit 32 (ucast (c (Suc k))) OR ucast (c k)"

definition store_cell :: "(nat \<Rightarrow> u32) \<Rightarrow> nat \<Rightarrow> u64 \<Rightarrow> nat \<Rightarrow> u32" where
  "store_cell c k v = c(k := ucast v, Suc k := ucast (drop_bit 32 v))"

text \<open>
  \<open>gk20a_replace_data\<close> applied to the word \<open>byte_offset / sizeof(u32)\<close> of a buffer of
  the context.
\<close>

definition patch_mem ::
  "cde_ctx \<Rightarrow> nat \<Rightarrow> u64 \<Rightarrow> patch_type \<Rightarrow> s32 \<Rightarrow> u64 \<Rightarrow> u64 \<Rightarrow> status \<times> cde_ctx" where
  "patch_mem ctx b byte_offset type shift msk val =
     (let target_mem = mem ctx b;
          k = unat (byte_offset div 4)
      in case gk20a_replace_data type shift msk val (cell_at (content target_mem) k) of
           Inl e \<Rightarrow> (Failure e, ctx)
         | Inr cell \<Rightarrow>
             (Success,
              ctx\<lparr>mem := (mem ctx)
                (b := target_mem\<lparr>content := store_cell (content target_mem) k cell\<rparr>)\<rparr>))"

definition gk20a_init_cde_replace :: "hdr_replace \<Rightarrow> cde_ctx \<Rightarrow> status \<times> cde_ctx" where
  "gk20a_init_cde_replace replace ctx =
     (if unat (rep_target_buf replace) \<ge> num_bufs ctx
         \<or> unat (rep_source_buf replace) \<ge> num_bufs ctx
      then (Failure EINVAL, ctx)
      else
        let source_mem = mem ctx (unat (rep_source_buf replace));
            target_mem = mem ctx (unat (rep_target_buf replace))
        in if md_num_bytes source_mem < rep_source_byte_offset replace + 3
              \<or> md_num_bytes target_mem < rep_target_byte_offset replace + 3
           then (Failure EINVAL, ctx)
           else
             let vaddr = gpu_va source_mem + rep_source_byte_offset replace
             in patch_mem ctx (unat (rep_target_buf replace)) (rep_target_byte_offset replace)
                  (rep_type replace) (rep_shift replace) (rep_mask replace) vaddr)"

subsection \<open>Parameters, classes and command lists of the image\<close>

definition gk20a_init_cde_param :: "cde_config \<Rightarrow> hdr_param \<Rightarrow> cde_ctx \<Rightarrow> status \<times> cde_ctx" where
  "gk20a_init_cde_param cfg param ctx =
     (if unat (par_target_buf param) \<ge> num_bufs ctx then (Failure EINVAL, ctx)
      else if md_num_bytes (mem ctx (unat (par_target_buf param)))
                < par_target_byte_offset param + 3
      then (Failure EINVAL, ctx)
      else if num_params ctx \<ge> MAX_CDE_PARAMS cfg then (Failure ENOMEM, ctx)
      else if uint (par_id param) \<ge> uint (NUM_RESERVED_PARAMS cfg) + MAX_CDE_USER_PARAMS cfg
      then (Failure EINVAL, ctx)
      else (Success, ctx\<lparr>params := (params ctx)(num_params ctx := param),
                          num_params := num_params ctx + 1\<rparr>))"

definition gk20a_init_cde_required_class ::
  "cde_config \<Rightarrow> env \<Rightarrow> u32 \<Rightarrow> cde_ctx \<Rightarrow> event list \<Rightarrow> status \<times> cde_ctx \<times> event list" where
  "gk20a_init_cde_required_class cfg env required_class ctx tr =
     (if num_obj_ids ctx \<ge> MAX_CDE_OBJ_IDS cfg then (Failure ENOMEM, ctx, tr)
      else
        let (err, obj_id) = e_alloc_obj_ctx env (length tr);
            tr1 = tr @ [Alloc_obj_ctx (ch ctx) required_class]
        in if err \<noteq> Success then (err, ctx, tr1)
           else (Success,
                 ctx\<lparr>obj_ids := (obj_ids ctx)(num_obj_ids ctx := obj_id),
                      num_obj_ids := num_obj_ids ctx + 1\<rparr>,
                 tr1))"

text \<open>\<open>u64_lo32\<close> and \<open>u64_hi32\<close>: the two halves of a \<open>u64\<close>.\<close>

definition u64_lo32 :: "u64 \<Rightarrow> u32" where
  "u64_lo32 x = ucast x"

definition u64_hi32 :: "u64 \<Rightarrow> u32" where
  "u64_hi32 x = ucast (drop_bit 32 x)"

text \<open>
  The loop of \<open>gk20a_init_cde_command\<close> over the command elements: \<open>es\<close> is the
  \<open>kzalloc\<close>ed array, \<open>i\<close> the index of the entry to fill. A failing element leaves the
  entries built so far in place.
\<close>

primrec command_loop ::
  "cde_config \<Rightarrow> cde_ctx \<Rightarrow> cmd_elem list \<Rightarrow> nvhost_gpfifo list \<Rightarrow> nat
     \<Rightarrow> status \<times> nvhost_gpfifo list" where
  "command_loop cfg ctx [] es i = (Success, es)"
| "command_loop cfg ctx (c # cs) es i =
     (if unat (ce_target_buf c) \<ge> num_bufs ctx then (Failure EINVAL, es)
      else
        let target_mem = mem ctx (unat (ce_target_buf c))
        in if md_num_bytes target_mem < ce_target_byte_offset c + ce_num_bytes c
           then (Failure EINVAL, es)
           else command_loop cfg ctx cs
                  (es[i := \<lparr>entry0 = u64_lo32 (gpu_va target_mem + ce_target_byte_offset c),
                            entry1 = u64_hi32 (gpu_va target_mem + ce_target_byte_offset c)
                                     OR pbdma_gp_entry1_length_f cfg
                                          (ucast (ce_num_bytes c div 4))\<rparr>])
                  (Suc i))"

definition gk20a_init_cde_command ::
  "cde_config \<Rightarrow> env \<Rightarrow> cmd_op \<Rightarrow> cmd_elem list \<Rightarrow> u32 \<Rightarrow> cde_ctx \<Rightarrow> event list
     \<Rightarrow> status \<times> cde_ctx \<times> event list" where
  "gk20a_init_cde_command cfg env op cmd num_elems ctx tr =
     (case op of
        TYPE_BUF_COMMAND_OTHER x \<Rightarrow> (Failure EINVAL, ctx, tr)
      | TYPE_BUF_COMMAND_INIT \<Rightarrow>
          (let p = e_kzalloc env (length tr);
               tr1 = tr @ [Kzalloc (unat num_elems)];
               es = replicate (unat num_elems) \<lparr>entry0 = 0, entry1 = 0\<rparr>
           in if p = 0 then (Failure ENOMEM, ctx\<lparr>init_cmd := 0\<rparr>, tr1)
              else case command_loop cfg ctx cmd es 0 of
                     (Failure e, es') \<Rightarrow>
                       (Failure e, ctx\<lparr>init_cmd := p, init_cmd_entries := es'\<rparr>, tr1)
                   | (Success, es') \<Rightarrow>
                       (Success, ctx\<lparr>init_cmd := p, init_cmd_entries := es',
                                      init_cmd_num_entries := num_elems\<rparr>, tr1))
      | TYPE_BUF_COMMAND_CONVERT \<Rightarrow>
          (let p = e_kzalloc env (length tr);
               tr1 = tr @ [Kzalloc (unat num_elems)];
               es = replicate (unat num_elems) \<lparr>entry0 = 0, entry1 = 0\<rparr>
           in if p = 0 then (Failure ENOMEM, ctx\<lparr>convert_cmd := 0\<rparr>, tr1)
              else case command_loop cfg ctx cmd es 0 of
                     (Failure e, es') \<Rightarrow>
                       (Failure e, ctx\<lparr>convert_cmd := p, convert_cmd_entries := es'\<rparr>, tr1)
                   | (Success, es') \<Rightarrow>
                       (Success, ctx\<lparr>convert_cmd := p, convert_cmd_entries := es',
                                      convert_cmd_num_entries := num_elems\<rparr>, tr1)))"

subsection \<open>Firmware image parser: \<open>gk20a_init_cde_img\<close>\<close>

text \<open>The body of the \<open>switch\<close>: one element handed to its handler.\<close>

definition init_cde_elem ::
  "cde_config \<Rightarrow> env \<Rightarrow> firmware \<Rightarrow> hdr_elem \<Rightarrow> cde_ctx \<Rightarrow> event list
     \<Rightarrow> status \<times> cde_ctx \<times> event list" where
  "init_cde_elem cfg env img elem ctx tr =
     (case elem of
        TYPE_BUF buf \<Rightarrow> gk20a_init_cde_buf cfg env img buf ctx tr
      | TYPE_REPLACE replace \<Rightarrow>
          (case gk20a_init_cde_replace replace ctx of (err, ctx') \<Rightarrow> (err, ctx', tr))
      | TYPE_PARAM param \<Rightarrow>
          (case gk20a_init_cde_param cfg param ctx of (err, ctx') \<Rightarrow> (err, ctx', tr))
      | TYPE_REQUIRED_CLASS required_class \<Rightarrow>
          gk20a_init_cde_required_class cfg env required_class ctx tr
      | TYPE_COMMAND command \<Rightarrow>
          gk20a_init_cde_command cfg env (cmd_op command)
            (map (fw_cmd_elem img (cmd_data_byte_offset command))
               [0..<unat (cmd_num_entries command)])
            (cmd_num_entries command) ctx tr
      | TYPE_UNKNOWN t \<Rightarrow> (Failure EINVAL, ctx, tr))"

text \<open>The \<open>for\<close> loop over the elements, in file order; it stops at the first error.\<close>

primrec init_cde_elems ::
  "cde_config \<Rightarrow> env \<Rightarrow> firmware \<Rightarrow> hdr_elem list \<Rightarrow> cde_ctx \<Rightarrow> event list
     \<Rightarrow> status \<times> cde_ctx \<times> event list" where
  "init_cde_elems cfg env img [] ctx tr = (Success, ctx, tr)"
| "init_cde_elems cfg env img (elem # elems) ctx tr =
     (case init_cde_elem cfg env img elem ctx tr of
        (Failure e, ctx', tr') \<Rightarrow> (Failure e, ctx', tr')
      | (Success, ctx', tr') \<Rightarrow> init_cde_elems cfg env img elems ctx' tr')"

text \<open>
  The two size checks. \<open>min_size\<close> is a \<open>u32\<close>: the sum \<open>8 + num_of_elems * sizeof(*elem)\<close>
  wraps around at \<open>2 ^ 32\<close>.
\<close>

definition header_fits :: "firmware \<Rightarrow> bool" where
  "header_fits img = (\<not> fw_size img < 8)"

definition elems_fit :: "cde_config \<Rightarrow> firmware \<Rightarrow> bool" where
  "elems_fit cfg img =
     (\<not> fw_size img < ucast (8 + fw_num_of_elems img * SIZEOF_HDR_ELEM cfg :: u32))"

definition fw_elems :: "firmware \<Rightarrow> hdr_elem list" where
  "fw_elems img = map (fw_elem img) [0..<unat (fw_num_of_elems img)]"

text \<open>
  The loop declares an \<open>int err\<close> of its own, which hides the \<open>err\<close> of the function.
  When a handler fails, the jump to \<open>deinit_image\<close> leaves the function's \<open>err\<close> at its
  initial \<open>0\<close>, and \<open>return err\<close> returns that: the context is torn down and the
  function returns \<open>0\<close>. The two tests behind the loop assign the function's \<open>err\<close>.
\<close>

definition gk20a_init_cde_img ::
  "cde_config \<Rightarrow> env \<Rightarrow> firmware \<Rightarrow> cde_ctx \<Rightarrow> event list \<Rightarrow> status \<times> cde_ctx \<times> event list" where
  "gk20a_init_cde_img cfg env img ctx tr =
     (if \<not> header_fits img then (Failure EINVAL, ctx, tr)
      else if \<not> elems_fit cfg img then (Failure EINVAL, ctx, tr)
      else
        case init_cde_elems cfg env img (fw_elems img) ctx tr of
          (Failure e, ctx', tr') \<Rightarrow>
            (case gk20a_deinit_cde_img ctx' tr' of (ctx'', tr'') \<Rightarrow> (Success, ctx'', tr''))
        | (Success, ctx', tr') \<Rightarrow>
            if init_cmd ctx' = 0 \<or> init_cmd_num_entries ctx' = 0
            then (case gk20a_deinit_cde_img ctx' tr' of
                    (ctx'', tr'') \<Rightarrow> (Failure EINVAL, ctx'', tr''))
            else if convert_cmd ctx' = 0 \<or> convert_cmd_num_entries ctx' = 0
            then (case gk20a_deinit_cde_img ctx' tr' of
                    (ctx'', tr'') \<Rightarrow> (Failure EINVAL, ctx'', tr''))
            else (Success, ctx', tr'))"

subsection \<open>Per-conversion patching: \<open>gk20a_cde_patch_params\<close>\<close>

text \<open>The fields of \<open>struct gk20a\<close> that the engine reads.\<close>

record gr_info =
  comptags_per_cacheline :: u32
  ltc_count :: u32
  slices_per_ltc :: u32
  cacheline_size :: u32
  compbit_store_size :: u64
  compbit_store_base_hw :: u64
  compbit_store_sgt :: nat
  pmu_vm :: nat

text \<open>
  The \<open>switch\<close> on \<open>param->id\<close>. The result is \<open>None\<close> for the \<open>continue\<close> of the
  \<open>default:\<close> branch, and otherwise \<open>new_data\<close>, the local \<open>err\<close> (\<open>None\<close> while it
  has not been assigned) and the record of calls.
\<close>

definition param_new_data ::
  "cde_config \<Rightarrow> env \<Rightarrow> gr_info \<Rightarrow> cde_ctx \<Rightarrow> hdr_param \<Rightarrow> status option \<Rightarrow> event list
     \<Rightarrow> (u64 \<times> status option \<times> event list) option" where
  "param_new_data cfg env g ctx param err tr =
     (case param_id_of cfg (par_id param) of
        TYPE_PARAM_COMPTAGS_PER_CACHELINE \<Rightarrow> Some (ucast (comptags_per_cacheline g), err, tr)
      | TYPE_PARAM_GPU_CONFIGURATION \<Rightarrow>
          Some (ucast (ltc_count g * slices_per_ltc g * cacheline_size g), err, tr)
      | TYPE_PARAM_FIRSTPAGEOFFSET \<Rightarrow> Some (ucast (src_param_offset ctx), err, tr)
      | TYPE_PARAM_NUMPAGES \<Rightarrow> Some (ucast (src_param_lines ctx), err, tr)
      | TYPE_PARAM_BACKINGSTORE \<Rightarrow> Some (backing_store_vaddr ctx, err, tr)
      | TYPE_PARAM_DESTINATION \<Rightarrow> Some (dest_vaddr ctx, err, tr)
      | TYPE_PARAM_DESTINATION_SIZE \<Rightarrow> Some (dest_size ctx, err, tr)
      | TYPE_PARAM_BACKINGSTORE_SIZE \<Rightarrow> Some (compbit_store_size g, err, tr)
      | TYPE_PARAM_SOURCE_SMMU_ADDR \<Rightarrow>
          (let new_data = e_gpuva_to_iova env (length tr)
           in Some (new_data,
                    if new_data = 0 then Some (Failure EINVAL) else err,
                    tr @ [Gpuva_to_iova (src_vaddr ctx)]))
      | TYPE_PARAM_BACKINGSTORE_BASE_HW \<Rightarrow> Some (compbit_store_base_hw g, err, tr)
      | TYPE_PARAM_DEFAULT \<Rightarrow>
          (let user_id = sint (par_id param - NUM_RESERVED_PARAMS cfg)
           in if user_id < 0 \<or> user_id \<ge> MAX_CDE_USER_PARAMS cfg then None
              else Some (ucast (user_param_values ctx (nat user_id)), err, tr)))"

text \<open>The \<open>for\<close> loop over \<open>cde_ctx->params\<close>; \<open>err\<close> is the local of that name.\<close>

primrec patch_params_loop ::
  "cde_config \<Rightarrow> env \<Rightarrow> gr_info \<Rightarrow> hdr_param list \<Rightarrow> status option \<Rightarrow> cde_ctx \<Rightarrow> event list
     \<Rightarrow> status \<times> cde_ctx \<times> event list" where
  "patch_params_loop cfg env g [] err ctx tr = (Success, ctx, tr)"
| "patch_params_loop cfg env g (param # ps) err ctx tr =
     (case param_new_data cfg env g ctx param err tr of
        None \<Rightarrow> patch_params_loop cfg env g ps err ctx tr
      | Some (new_data, err1, tr1) \<Rightarrow>
          (case patch_mem ctx (unat (par_target_buf param)) (par_target_byte_offset param)
                  (par_type param) (par_shift param) (par_mask param)
                  (new_data + par_data_offset param) of
             (Failure e, ctx') \<Rightarrow> (Failure e, ctx', tr1)
           | (Success, ctx') \<Rightarrow> patch_params_loop cfg env g ps (Some Success) ctx' tr1))"

definition gk20a_cde_patch_params ::
  "cde_config \<Rightarrow> env \<Rightarrow> gr_info \<Rightarrow> cde_ctx \<Rightarrow> event list \<Rightarrow> status \<times> cde_ctx \<times> event list" where
  "gk20a_cde_patch_params cfg env g ctx tr =
     patch_params_loop cfg env g (map (params ctx) [0..<num_params ctx]) None ctx tr"

subsection \<open>Submission: \<open>gk20a_cde_execute_buffer\<close>\<close>

text \<open>The result carries the fence that the submission hands out.\<close>

definition gk20a_cde_execute_buffer ::
  "env \<Rightarrow> cmd_op \<Rightarrow> nat \<Rightarrow> u32 \<Rightarrow> cde_ctx \<Rightarrow> event list \<Rightarrow> status \<times> nat \<times> event list" where
  "gk20a_cde_execute_buffer env op fence flags ctx tr =
     (case op of
        TYPE_BUF_COMMAND_OTHER x \<Rightarrow> (Failure EINVAL, 0, tr)
      | TYPE_BUF_COMMAND_INIT \<Rightarrow>
          if init_cmd ctx = 0 \<or> init_cmd_num_entries ctx = 0 then (Failure ENOSYS, 0, tr)
          else (case e_submit_channel_gpfifo env (length tr) of
                  (err, f) \<Rightarrow>
                    (err, f,
                     tr @ [Submit_channel_gpfifo (ch ctx) (init_cmd_entries ctx)
                             (init_cmd_num_entries ctx) flags]))
      | TYPE_BUF_COMMAND_CONVERT \<Rightarrow>
          if convert_cmd ctx = 0 \<or> convert_cmd_num_entries ctx = 0 then (Failure ENOSYS, 0, tr)
          else (case e_submit_channel_gpfifo env (length tr) of
                  (err, f) \<Rightarrow>
                    (err, f,
                     tr @ [Submit_channel_gpfifo (ch ctx) (convert_cmd_entries ctx)
                             (convert_cmd_num_entries ctx) flags])))"

subsection \<open>Context pool: load, remove, initialise, reload, destroy\<close>

text \<open>
  \<open>struct gk20a_cde_app\<close>. The array \<open>cde_ctx\<close> is a function of the index; its size
  \<open>ARRAY_SIZE(cde_app->cde_ctx)\<close> is \<open>NUM_CDE_CTX\<close>.
\<close>

record cde_app =
  initialised :: bool
  app_vm :: nat
  cde_ctx :: "nat \<Rightarrow> cde_ctx"
  cde_ctx_ptr :: nat
  shader_parameter :: u32

definition gk20a_cde_remove :: "gr_info \<Rightarrow> cde_ctx \<Rightarrow> event list \<Rightarrow> cde_ctx \<times> event list" where
  "gk20a_cde_remove g ctx tr =
     (case gk20a_deinit_cde_img ctx (tr @ [Free_channel (ch ctx)]) of
        (ctx', tr') \<Rightarrow>
          (ctx', tr' @ [Gmmu_unmap (backing_store_vaddr ctx) (compbit_store_size g)]))"

definition gk20a_cde_load ::
  "cde_config \<Rightarrow> env \<Rightarrow> gr_info \<Rightarrow> cde_ctx \<Rightarrow> event list \<Rightarrow> status \<times> cde_ctx \<times> event list" where
  "gk20a_cde_load cfg env g ctx tr =
     (case e_request_firmware env (length tr) of
        None \<Rightarrow> (Failure ENOSYS, ctx, tr @ [Request_firmware])
      | Some img \<Rightarrow>
          let tr1 = tr @ [Request_firmware];
              c = e_open_new_channel env (length tr1);
              tr2 = tr1 @ [Open_new_channel]
          in if c = 0 then (Failure ENOMEM, ctx, tr2 @ [Release_firmware])
          else
            let tr3 = tr2 @ [Vm_get (pmu_vm g)];
                err = e_commit_va env (length tr3);
                tr4 = tr3 @ [Commit_va c]
            in if err \<noteq> Success then (err, ctx, tr4 @ [Release_firmware])
            else
              let err = e_alloc_channel_gpfifo env (length tr4);
                  tr5 = tr4 @ [Alloc_channel_gpfifo c]
              in if err \<noteq> Success
                 then (err, ctx, tr5 @ [Vm_put (pmu_vm g), Release_firmware])
              else
                let vaddr = e_gmmu_map env (length tr5);
                    tr6 = tr5 @ [Gmmu_map (compbit_store_sgt g) (compbit_store_size g)]
                in if vaddr = 0
                   then (err, ctx, tr6 @ [Vm_put (pmu_vm g), Release_firmware])
                else
                  let ctx1 = ctx\<lparr>ch := c, vm := pmu_vm g, backing_store_vaddr := vaddr\<rparr>
                  in case gk20a_init_cde_img cfg env img ctx1 tr6 of
                       (Failure e, ctx2, tr7) \<Rightarrow>
                         (Failure e, ctx2,
                          tr7 @ [Gmmu_unmap vaddr (compbit_store_size g),
                                 Vm_put (pmu_vm g), Release_firmware])
                     | (Success, ctx2, tr7) \<Rightarrow>
                         (Success, ctx2, tr7 @ [Release_firmware]))"

text \<open>
  \<open>gk20a_cde_load\<close> on slot \<open>i\<close> of the pool, as the loops of
  \<open>gk20a_init_cde_support\<close> and \<open>gk20a_cde_reload\<close> call it.
\<close>

definition load_slot ::
  "cde_config \<Rightarrow> env \<Rightarrow> gr_info \<Rightarrow> nat \<Rightarrow> cde_app \<Rightarrow> event list
     \<Rightarrow> status \<times> cde_app \<times> event list" where
  "load_slot cfg env g i app tr =
     (case gk20a_cde_load cfg env g (cde_ctx app i) tr of
        (err, ctx', tr') \<Rightarrow> (err, app\<lparr>cde_ctx := (cde_ctx app)(i := ctx')\<rparr>, tr'))"

definition remove_slot :: "gr_info \<Rightarrow> nat \<Rightarrow> cde_app \<times> event list \<Rightarrow> cde_app \<times> event list" where
  "remove_slot g i s =
     (case s of (app, tr) \<Rightarrow>
        case gk20a_cde_remove g (cde_ctx app i) tr of
          (ctx', tr') \<Rightarrow> (app\<lparr>cde_ctx := (cde_ctx app)(i := ctx')\<rparr>, tr'))"

text \<open>
  The loading loop of \<open>gk20a_init_cde_support\<close>. It returns the status and the index at
  which it stopped.
\<close>

primrec init_loop ::
  "cde_config \<Rightarrow> env \<Rightarrow> gr_info \<Rightarrow> nat list \<Rightarrow> cde_app \<Rightarrow> event list
     \<Rightarrow> (status \<times> nat) \<times> cde_app \<times> event list" where
  "init_loop cfg env g [] app tr = ((Success, NUM_CDE_CTX cfg), app, tr)"
| "init_loop cfg env g (i # is) app tr =
     (case load_slot cfg env g i app tr of
        (Failure e, app', tr') \<Rightarrow> ((Failure e, i), app', tr')
      | (Success, app', tr') \<Rightarrow> init_loop cfg env g is app' tr')"

text \<open>
  On a failure at slot \<open>i\<close> the unwinding loop \<open>while (i--)\<close> starts at the slot that
  failed and walks down: it removes the slots \<open>i, i - 1, ..., 1\<close>. That path returns
  with the mutex held.
\<close>

definition gk20a_init_cde_support ::
  "cde_config \<Rightarrow> env \<Rightarrow> gr_info \<Rightarrow> cde_app \<Rightarrow> event list \<Rightarrow> status \<times> cde_app \<times> event list" where
  "gk20a_init_cde_support cfg env g app tr =
     (if initialised app then (Success, app, tr)
      else
        case init_loop cfg env g [0..<NUM_CDE_CTX cfg] app (tr @ [Mutex_init, Mutex_lock]) of
          ((Failure e, i), app', tr') \<Rightarrow>
            (case fold (remove_slot g) (rev [1..<Suc i]) (app', tr') of
               (app'', tr'') \<Rightarrow> (Failure e, app'', tr''))
        | ((Success, i), app', tr') \<Rightarrow>
            (Success,
             app'\<lparr>app_vm := vm (cde_ctx app' 0), cde_ctx_ptr := 0, initialised := True\<rparr>,
             tr' @ [Mutex_unlock]))"

text \<open>
  The loop of \<open>gk20a_cde_reload\<close>: every slot is removed and loaded again, and each
  load assigns \<open>err\<close>.
\<close>

definition reload_slot ::
  "cde_config \<Rightarrow> env \<Rightarrow> gr_info \<Rightarrow> nat \<Rightarrow> status \<times> cde_app \<times> event list
     \<Rightarrow> status \<times> cde_app \<times> event list" where
  "reload_slot cfg env g i s =
     (case s of (err, app, tr) \<Rightarrow>
        case remove_slot g i (app, tr) of
          (app', tr') \<Rightarrow> load_slot cfg env g i app' tr')"

definition gk20a_cde_reload ::
  "cde_config \<Rightarrow> env \<Rightarrow> gr_info \<Rightarrow> cde_app \<Rightarrow> event list \<Rightarrow> status \<times> cde_app \<times> event list" where
  "gk20a_cde_reload cfg env g app tr =
     (if \<not> initialised app
      then (case gk20a_init_cde_support cfg env g app (tr @ [Busy]) of
              (r, app', tr') \<Rightarrow>
                (if \<not> initialised app' then Failure ENOSYS else Success, app', tr' @ [Idle]))
      else
        case fold (reload_slot cfg env g) [0..<NUM_CDE_CTX cfg]
               (e_uninitialised env, app, tr @ [Busy, Mutex_lock]) of
          (err, app', tr') \<Rightarrow>
            (err, app'\<lparr>cde_ctx_ptr := 0\<rparr>, tr' @ [Mutex_unlock, Idle]))"

definition gk20a_cde_destroy ::
  "cde_config \<Rightarrow> env \<Rightarrow> gr_info \<Rightarrow> cde_app \<Rightarrow> event list \<Rightarrow> status \<times> cde_app \<times> event list" where
  "gk20a_cde_destroy cfg env g app tr =
     (if \<not> initialised app then (Success, app, tr)
      else
        case fold (remove_slot g) [0..<NUM_CDE_CTX cfg] (app, tr) of
          (app', tr') \<Rightarrow>
            (if NUM_CDE_CTX cfg = 0 then e_uninitialised env else Success,
             app'\<lparr>initialised := False\<rparr>, tr'))"

subsection \<open>Conversion: \<open>gk20a_cde_convert\<close>\<close>

text \<open>\<open>struct gk20a_cde_param\<close>: a user parameter of one conversion.\<close>

record gk20a_cde_param =
  cp_id :: u32
  cp_value :: u64

text \<open>
  The label \<open>exit_unlock\<close>: unmap what was mapped, release the pool mutex, return
  \<open>err\<close>.
\<close>

definition exit_unlock ::
  "status \<Rightarrow> nat \<Rightarrow> u64 \<Rightarrow> u64 \<Rightarrow> cde_app \<Rightarrow> event list
     \<Rightarrow> status \<times> nat \<times> cde_app \<times> event list" where
  "exit_unlock err fence_out dst_va src_va app tr =
     (err, fence_out, app,
      tr @ (if dst_va \<noteq> 0 then [Vm_unmap dst_va] else [])
         @ (if src_va \<noteq> 0 then [Vm_unmap src_va] else [])
         @ [Mutex_unlock])"

text \<open>The loop that reads the user arguments into \<open>user_param_values\<close>.\<close>

primrec read_user_params ::
  "cde_config \<Rightarrow> gk20a_cde_param list \<Rightarrow> (nat \<Rightarrow> u32) \<Rightarrow> status \<times> (nat \<Rightarrow> u32)" where
  "read_user_params cfg [] vals = (Success, vals)"
| "read_user_params cfg (param # ps) vals =
     (let uid = sint (cp_id param - NUM_RESERVED_PARAMS cfg)
      in if uid < 0 \<or> uid \<ge> MAX_CDE_USER_PARAMS cfg then (Failure EINVAL, vals)
         else read_user_params cfg ps (vals(nat uid := ucast (cp_value param))))"

text \<open>
  The channel is disabled, preempted and unbound, its golden context image is loaded
  again, and it is bound and enabled.
\<close>

definition reset_channel :: "nat \<Rightarrow> event list" where
  "reset_channel c =
     [Channel_disable c, Fifo_preempt_channel c, Channel_unbind c,
      Load_golden_ctx_image c, Bind_channel c, Channel_enable c]"

text \<open>
  The part of \<open>gk20a_cde_convert\<close> from \<open>gk20a_channel_finish\<close> on, for the context in
  slot \<open>i\<close>, with both buffers mapped and the pool mutex held.
\<close>

definition convert_submit ::
  "cde_config \<Rightarrow> env \<Rightarrow> gr_info \<Rightarrow> nat \<Rightarrow> dma_buf \<Rightarrow> u64 \<Rightarrow> u64 \<Rightarrow> u64 \<Rightarrow> u32
     \<Rightarrow> nat \<Rightarrow> u32 \<Rightarrow> gk20a_cde_param list \<Rightarrow> cde_app \<Rightarrow> event list
     \<Rightarrow> status \<times> nat \<times> cde_app \<times> event list" where
  "convert_submit cfg env g i src dst_va src_va dst_byte_offset dst_size
       fence flags0 ps app tr =
     (let err = e_channel_finish env (length tr);
          tr1 = tr @ [Channel_finish (ch (cde_ctx app i))]
      in if err \<noteq> Success then exit_unlock err 0 dst_va src_va app tr1
      else
        let tr2 = tr1 @ reset_channel (ch (cde_ctx app i));
            (comptags_offset, comptags_lines) = e_get_comptags env (length tr2);
            tr3 = tr2 @ [Get_comptags (db_id src)];
            ctx1 = (cde_ctx app i)\<lparr>src_vaddr := src_va,
                     src_param_offset := comptags_offset,
                     src_param_lines := comptags_lines,
                     dest_vaddr := dst_va + dst_byte_offset,
                     dest_size := ucast dst_size\<rparr>
        in case read_user_params cfg ps (\<lambda>k. 0) of
             (Failure e, vals) \<Rightarrow>
               exit_unlock (Failure e) 0 dst_va src_va
                 (app\<lparr>cde_ctx := (cde_ctx app)(i := ctx1\<lparr>user_param_values := vals\<rparr>)\<rparr>) tr3
           | (Success, vals) \<Rightarrow>
               (case gk20a_cde_patch_params cfg env g (ctx1\<lparr>user_param_values := vals\<rparr>) tr3 of
                  (Failure e, ctx2, tr4) \<Rightarrow>
                    exit_unlock (Failure e) 0 dst_va src_va
                      (app\<lparr>cde_ctx := (cde_ctx app)(i := ctx2)\<rparr>) tr4
                | (Success, ctx2, tr4) \<Rightarrow>
                    (case gk20a_cde_execute_buffer env TYPE_BUF_COMMAND_INIT 0 0 ctx2 tr4 of
                       (Failure e, f, tr5) \<Rightarrow>
                         exit_unlock (Failure e) 0 dst_va src_va
                           (app\<lparr>cde_ctx := (cde_ctx app)(i := ctx2)\<rparr>) tr5
                     | (Success, f, tr5) \<Rightarrow>
                         (let flags = flags0 OR NVHOST_SUBMIT_GPFIFO_FLAGS_FENCE_GET cfg
                          in case gk20a_cde_execute_buffer env TYPE_BUF_COMMAND_CONVERT
                                    fence flags ctx2 tr5 of
                               (err, fence_out, tr6) \<Rightarrow>
                                 exit_unlock err fence_out dst_va src_va
                                   (app\<lparr>cde_ctx := (cde_ctx app)(i := ctx2)\<rparr>) tr6))))"

text \<open>
  \<open>gk20a_cde_convert\<close>. The result is the status, the fence written to \<open>*fence_out\<close>
  (\<open>0\<close> if none was written), the pool and the record of calls.
\<close>

definition gk20a_cde_convert ::
  "cde_config \<Rightarrow> env \<Rightarrow> gr_info \<Rightarrow> dma_buf \<Rightarrow> dma_buf \<Rightarrow> u64 \<Rightarrow> u32 \<Rightarrow> nat \<Rightarrow> u32
     \<Rightarrow> gk20a_cde_param list \<Rightarrow> cde_app \<Rightarrow> event list
     \<Rightarrow> status \<times> nat \<times> cde_app \<times> event list" where
  "gk20a_cde_convert cfg env g src dst dst_byte_offset dst_size0 fence flags0 ps app0 tr0 =
     (if \<not> initialised app0 then (Failure ENOSYS, 0, app0, tr0)
      else
        let tr1 = tr0 @ [Mutex_lock];
            i = cde_ctx_ptr app0;
            app = app0\<lparr>cde_ctx_ptr := (cde_ctx_ptr app0 + 1) mod NUM_CDE_CTX cfg\<rparr>;
            err = e_dmabuf_alloc_drvdata env (length tr1);
            tr2 = tr1 @ [Dmabuf_alloc_drvdata (db_id dst)]
        in if err \<noteq> Success then exit_unlock err 0 0 0 app tr2
        else
          let tr3 = tr2 @ [Get_dma_buf (db_id dst)];
              dst_va = e_vm_map env (length tr3);
              tr4 = tr3 @ [Vm_map (db_id dst)]
          in if dst_va = 0
             then exit_unlock (Failure EINVAL) 0 dst_va 0 app (tr4 @ [Dma_buf_put (db_id dst)])
          else
            let err = e_dmabuf_alloc_drvdata env (length tr4);
                tr5 = tr4 @ [Dmabuf_alloc_drvdata (db_id src)]
            in if err \<noteq> Success then exit_unlock err 0 dst_va 0 app tr5
            else
              let tr6 = tr5 @ [Get_dma_buf (db_id src)];
                  src_va = e_vm_map env (length tr6);
                  tr7 = tr6 @ [Vm_map (db_id src)]
              in if src_va = 0
                 then exit_unlock (Failure EINVAL) 0 dst_va src_va app
                        (tr7 @ [Dma_buf_put (db_id src)])
              else
                let dst_size = (if dst_size0 = 0 then ucast (db_size dst - dst_byte_offset)
                                else dst_size0)
                in if e_has_timedout env (length tr7)
                   then (case gk20a_cde_reload cfg env g app (tr7 @ [Mutex_unlock]) of
                           (Failure e, app', tr8) \<Rightarrow> (Failure e, 0, app', tr8)
                         | (Success, app', tr8) \<Rightarrow>
                             convert_submit cfg env g i src dst_va src_va dst_byte_offset
                               dst_size fence flags0 ps app' (tr8 @ [Mutex_lock]))
                   else convert_submit cfg env g i src dst_va src_va dst_byte_offset
                          dst_size fence flags0 ps app tr7)"

subsection \<open>Launch geometry and \<open>gk20a_buffer_convert_gpu_to_cde\<close>\<close>

text \<open>
  The arithmetic of the function is on \<open>int\<close>, 32 bits wide; a result outside the range
  wraps around, as the kernel is compiled. \<open>int32 x\<close> is the \<open>int\<close> that the exact
  result \<open>x\<close> becomes.
\<close>

definition int32 :: "int \<Rightarrow> int" where
  "int32 x = (x + 2 ^ 31) mod 2 ^ 32 - 2 ^ 31"

text \<open>
  Modelled from the spec: the kernel macro \<open>roundup(x, y)\<close> of include/linux/kernel.h,
  which is not part of the sources: the spec's "align" rounds \<open>x\<close> up to a multiple of
  \<open>y\<close>, which the macro computes as \<open>((x + (y - 1)) / y) * y\<close> with C's division.
\<close>

definition roundup :: "int \<Rightarrow> int \<Rightarrow> int" where
  "roundup x y = int32 ((int32 (x + (y - 1)) sdiv y) * y)"

text \<open>
  The \<open>const int\<close> locals computed at the head of the function. The \<open>u32\<close> arguments
  are converted to \<open>int\<close>; \<open>>> 3\<close> on an \<open>int\<close> is the arithmetic shift.
\<close>

record geometry =
  xtiles :: int
  ytiles :: int
  tilepitch :: int
  ytilesaligned :: int
  gridw :: int
  gridh :: int

definition wgx :: int where "wgx = 16"
definition wgy :: int where "wgy = 8"
definition compbits_per_byte :: int where "compbits_per_byte = 4"
definition dst_stride :: int where "dst_stride = 128"

definition launch_geometry :: "bool \<Rightarrow> u32 \<Rightarrow> u32 \<Rightarrow> geometry" where
  "launch_geometry transposed width height =
     (let transposed_width = (if transposed then sint height else sint width);
          transposed_height = (if transposed then sint width else sint height);
          xt = int32 (transposed_width + 7) div 8;
          yt = int32 (transposed_height + 7) div 8;
          xalign = compbits_per_byte * wgx;
          yalign = wgy;
          tp = roundup xt xalign sdiv compbits_per_byte;
          ya = roundup yt yalign
      in \<lparr>xtiles = xt, ytiles = yt, tilepitch = tp, ytilesaligned = ya,
          gridw = roundup tp wgx sdiv wgx, gridh = roundup ya wgy sdiv wgy\<rparr>)"

text \<open>The test \<open>tilepitch % wgx != 0 || ytilesaligned % wgy != 0\<close>.\<close>

definition geometry_check :: "geometry \<Rightarrow> status" where
  "geometry_check geo =
     (if tilepitch geo smod wgx \<noteq> 0 \<or> ytilesaligned geo smod wgy \<noteq> 0
      then Failure EINVAL else Success)"

text \<open>The parameters written by \<open>WRITE_PATCH\<close>, in order, with the ids of \<open>enum cde_launch_patch_id\<close>.\<close>

definition launch_params :: "bool \<Rightarrow> u32 \<Rightarrow> u32 \<Rightarrow> geometry \<Rightarrow> gk20a_cde_param list" where
  "launch_params transposed block_height_log2 shader geo =
     [\<lparr>cp_id = 1030, cp_value = of_int (xtiles geo)\<rparr>,
      \<lparr>cp_id = 1031, cp_value = of_int (ytiles geo)\<rparr>,
      \<lparr>cp_id = 1032, cp_value = ucast block_height_log2\<rparr>,
      \<lparr>cp_id = 1033, cp_value = of_int dst_stride\<rparr>,
      \<lparr>cp_id = 1034, cp_value = ucast ((if transposed then 4 else 0) OR shader)\<rparr>,
      \<lparr>cp_id = 1035, cp_value = of_int (gridw geo)\<rparr>,
      \<lparr>cp_id = 1036, cp_value = of_int (gridh geo)\<rparr>,
      \<lparr>cp_id = 1037, cp_value = 1\<rparr>,
      \<lparr>cp_id = 1038, cp_value = of_int wgx\<rparr>,
      \<lparr>cp_id = 1039, cp_value = of_int wgy\<rparr>,
      \<lparr>cp_id = 1040, cp_value = 1\<rparr>,
      \<lparr>cp_id = 1024, cp_value = of_int (gridw geo)\<rparr>,
      \<lparr>cp_id = 1025, cp_value = of_int (gridh geo)\<rparr>,
      \<lparr>cp_id = 1026, cp_value = 1\<rparr>,
      \<lparr>cp_id = 1027, cp_value = of_int wgx\<rparr>,
      \<lparr>cp_id = 1028, cp_value = of_int wgy\<rparr>,
      \<lparr>cp_id = 1029, cp_value = 1\<rparr>]"

text \<open>
  The function in three parts. \<open>launch_convert\<close> is the part behind the test: the
  parameters are written, and between \<open>gk20a_busy\<close> and \<open>gk20a_idle\<close> the pool is
  initialised if it is not and the conversion is run on the buffer. \<open>checked_launch\<close> is
  the test on the computed locals followed by that part. The function computes the locals
  from its arguments and goes through both.
\<close>

definition launch_convert ::
  "cde_config \<Rightarrow> env \<Rightarrow> gr_info \<Rightarrow> dma_buf \<Rightarrow> bool \<Rightarrow> geometry \<Rightarrow> u64 \<Rightarrow> u32 \<Rightarrow> u32
     \<Rightarrow> nat \<Rightarrow> cde_app \<Rightarrow> event list \<Rightarrow> status \<times> nat \<times> cde_app \<times> event list" where
  "launch_convert cfg env g dmabuf transposed geo compbits_offset block_height_log2
       submit_flags fence_in app tr =
     (let ps = launch_params transposed block_height_log2 (shader_parameter app) geo
      in case gk20a_init_cde_support cfg env g app (tr @ [Busy]) of
           (Failure e, app1, tr1) \<Rightarrow> (Failure e, 0, app1, tr1 @ [Idle])
         | (Success, app1, tr1) \<Rightarrow>
             (case gk20a_cde_convert cfg env g dmabuf dmabuf compbits_offset 0
                     fence_in submit_flags ps app1 tr1 of
                (err, fence_out, app2, tr2) \<Rightarrow> (err, fence_out, app2, tr2 @ [Idle])))"

definition checked_launch ::
  "cde_config \<Rightarrow> env \<Rightarrow> gr_info \<Rightarrow> dma_buf \<Rightarrow> bool \<Rightarrow> geometry \<Rightarrow> u64 \<Rightarrow> u32 \<Rightarrow> u32
     \<Rightarrow> nat \<Rightarrow> cde_app \<Rightarrow> event list \<Rightarrow> status \<times> nat \<times> cde_app \<times> event list" where
  "checked_launch cfg env g dmabuf transposed geo compbits_offset block_height_log2
       submit_flags fence_in app tr =
     (case geometry_check geo of
        Failure e \<Rightarrow> (Failure e, 0, app, tr)
      | Success \<Rightarrow>
          launch_convert cfg env g dmabuf transposed geo compbits_offset block_height_log2
            submit_flags fence_in app tr)"

definition gk20a_buffer_convert_gpu_to_cde ::
  "cde_config \<Rightarrow> env \<Rightarrow> gr_info \<Rightarrow> dma_buf \<Rightarrow> u32 \<Rightarrow> u64 \<Rightarrow> u32 \<Rightarrow> u32 \<Rightarrow> u32 \<Rightarrow> u32
     \<Rightarrow> nat \<Rightarrow> cde_app \<Rightarrow> event list \<Rightarrow> status \<times> nat \<times> cde_app \<times> event list" where
  "gk20a_buffer_convert_gpu_to_cde cfg env g dmabuf consumer compbits_offset width height
       block_height_log2 submit_flags fence_in app tr =
     (let transposed = (consumer = NVHOST_GPU_COMPBITS_CDEV cfg)
      in checked_launch cfg env g dmabuf transposed (launch_geometry transposed width height)
           compbits_offset block_height_log2 submit_flags fence_in app tr)"

subsection \<open>Compression state: \<open>gk20a_prepare_compressible_read\<close>\<close>

text \<open>\<open>struct gk20a_buffer_state\<close>: the valid representations and the fence of the last job.\<close>

record buffer_state =
  valid_compbits :: u32
  state_fence :: nat

text \<open>
  What the caller gets back: the return value, and what was stored through the pointers
  \<open>valid_compbits\<close> and \<open>fence_out\<close> (\<open>None\<close> if nothing was stored).
\<close>

record read_result =
  rr_status :: status
  rr_valid_compbits :: "u32 option"
  rr_fence_out :: "nat option"

text \<open>
  One of the two conversions of the \<open>missing_bits\<close> branch, for the representation
  \<open>cbit\<close>. The result is the local \<open>err\<close> and the state.
\<close>

definition convert_missing ::
  "cde_config \<Rightarrow> env \<Rightarrow> gr_info \<Rightarrow> dma_buf \<Rightarrow> u32 \<Rightarrow> u32 \<Rightarrow> u64 \<Rightarrow> u32 \<Rightarrow> u32 \<Rightarrow> u32 \<Rightarrow> u32
     \<Rightarrow> nat \<Rightarrow> buffer_state \<Rightarrow> cde_app \<Rightarrow> event list
     \<Rightarrow> status \<times> buffer_state \<times> cde_app \<times> event list" where
  "convert_missing cfg env g dmabuf missing_bits cbit compbits_offset width height
       block_height_log2 submit_flags fence st app tr =
     (if valid_compbits st AND NVHOST_GPU_COMPBITS_GPU cfg \<noteq> 0 \<and> missing_bits AND cbit \<noteq> 0
      then (case gk20a_buffer_convert_gpu_to_cde cfg env g dmabuf cbit compbits_offset
                   width height block_height_log2 submit_flags fence app tr of
              (Failure e, new_fence, app', tr') \<Rightarrow> (Failure e, st, app', tr')
            | (Success, new_fence, app', tr') \<Rightarrow>
                (Success,
                 st\<lparr>state_fence := new_fence, valid_compbits := valid_compbits st OR cbit\<rparr>,
                 app', tr' @ [Fence_put (state_fence st)]))
      else (Success, st, app, tr))"

text \<open>
  The label \<open>out\<close>: the state lock and the buffer are released and the function returns
  \<open>0\<close>, whatever the local \<open>err\<close> holds.
\<close>

definition prepare_out ::
  "status \<Rightarrow> dma_buf \<Rightarrow> u32 option \<Rightarrow> nat option \<Rightarrow> buffer_state \<Rightarrow> cde_app \<Rightarrow> event list
     \<Rightarrow> read_result \<times> buffer_state \<times> cde_app \<times> event list" where
  "prepare_out err dmabuf vc fo st app tr =
     (\<lparr>rr_status = Success, rr_valid_compbits = vc, rr_fence_out = fo\<rparr>, st, app,
      tr @ [State_unlock, Dma_buf_put (db_id dmabuf)])"

text \<open>
  \<open>want_valid\<close> and \<open>want_fence\<close> say whether the pointers \<open>valid_compbits\<close> and
  \<open>fence_out\<close> of the caller are non-\<open>NULL\<close>; \<open>st\<close> is the state that
  \<open>gk20a_dmabuf_get_state\<close> finds for the buffer and offset.
\<close>

definition gk20a_prepare_compressible_read ::
  "cde_config \<Rightarrow> env \<Rightarrow> gr_info \<Rightarrow> u32 \<Rightarrow> u32 \<Rightarrow> u64 \<Rightarrow> u64 \<Rightarrow> u64 \<Rightarrow> u32 \<Rightarrow> u32 \<Rightarrow> u32 \<Rightarrow> u32
     \<Rightarrow> nat \<Rightarrow> bool \<Rightarrow> bool \<Rightarrow> buffer_state \<Rightarrow> cde_app \<Rightarrow> event list
     \<Rightarrow> read_result \<times> buffer_state \<times> cde_app \<times> event list" where
  "gk20a_prepare_compressible_read cfg env g buffer_fd request offset compbits_hoffset
       compbits_voffset width height block_height_log2 submit_flags fence
       want_valid want_fence st app0 tr0 =
     (case (if \<not> initialised app0 then gk20a_cde_reload cfg env g app0 tr0
            else (Success, app0, tr0)) of
        (Failure e, app, tr) \<Rightarrow>
          (\<lparr>rr_status = Failure e, rr_valid_compbits = None, rr_fence_out = None\<rparr>, st, app, tr)
      | (Success, app, tr) \<Rightarrow>
          (case e_dma_buf_get env (length tr) of
             None \<Rightarrow>
               (\<lparr>rr_status = Failure EINVAL, rr_valid_compbits = None, rr_fence_out = None\<rparr>,
                st, app, tr @ [Dma_buf_get buffer_fd])
           | Some dmabuf \<Rightarrow>
               let tr1 = tr @ [Dma_buf_get buffer_fd];
                   err = e_dmabuf_get_state env (length tr1);
                   tr2 = tr1 @ [Dmabuf_get_state (db_id dmabuf) offset]
               in if err \<noteq> Success
                  then (\<lparr>rr_status = err, rr_valid_compbits = None, rr_fence_out = None\<rparr>,
                        st, app, tr2 @ [Dma_buf_put (db_id dmabuf)])
               else
                 let missing_bits = (valid_compbits st XOR request) AND request;
                     tr3 = tr2 @ [State_lock]
                 in if valid_compbits st \<noteq> 0 \<and> request = NVHOST_GPU_COMPBITS_NONE
                    then prepare_out (Failure EINVAL) dmabuf None None
                           (st\<lparr>state_fence := 0\<rparr>) app (tr3 @ [Fence_put (state_fence st)])
                 else
                   case (if missing_bits \<noteq> 0
                         then (case convert_missing cfg env g dmabuf missing_bits
                                      (NVHOST_GPU_COMPBITS_CDEH cfg) compbits_hoffset width height
                                      block_height_log2 submit_flags fence st app tr3 of
                                 (Failure e, st1, app1, tr4) \<Rightarrow> (Failure e, st1, app1, tr4)
                               | (Success, st1, app1, tr4) \<Rightarrow>
                                   convert_missing cfg env g dmabuf missing_bits
                                     (NVHOST_GPU_COMPBITS_CDEV cfg) compbits_voffset width height
                                     block_height_log2 submit_flags fence st1 app1 tr4)
                         else (Success, st, app, tr3)) of
                     (Failure e, st2, app2, tr5) \<Rightarrow>
                       prepare_out (Failure e) dmabuf None None st2 app2 tr5
                   | (Success, st2, app2, tr5) \<Rightarrow>
                       prepare_out Success dmabuf
                         (if want_valid then Some (valid_compbits st2) else None)
                         (if state_fence st2 \<noteq> 0 \<and> want_fence
                          then Some (state_fence st2) else None)
                         st2 app2
                         (tr5 @ (if state_fence st2 \<noteq> 0 \<and> want_fence
                                 then [Fence_get (state_fence st2)] else []))))"

subsection \<open>Concrete inputs\<close>

text \<open>
  Sample values for the parameters of the model, on which the definitions above are run:
  a configuration with a pool of one context and one with a pool of two, a kernel in which
  every call succeeds, and a context, a pool and a buffer state filled with zeroes.
\<close>

definition sample_config :: cde_config where
  "sample_config =
     \<lparr>MAX_CDE_BUFS = 10, MAX_CDE_PARAMS = 64, MAX_CDE_OBJ_IDS = 4,
      MAX_CDE_USER_PARAMS = 32, NUM_RESERVED_PARAMS = 1024, NUM_CDE_CTX = 1,
      SIZEOF_HDR_ELEM = 48,
      param_id_of = (\<lambda>x. if x = 0 then TYPE_PARAM_COMPTAGS_PER_CACHELINE
                          else if x = 1 then TYPE_PARAM_GPU_CONFIGURATION
                          else if x = 2 then TYPE_PARAM_FIRSTPAGEOFFSET
                          else if x = 3 then TYPE_PARAM_NUMPAGES
                          else if x = 4 then TYPE_PARAM_BACKINGSTORE
                          else if x = 5 then TYPE_PARAM_DESTINATION
                          else if x = 6 then TYPE_PARAM_DESTINATION_SIZE
                          else if x = 7 then TYPE_PARAM_BACKINGSTORE_SIZE
                          else if x = 8 then TYPE_PARAM_SOURCE_SMMU_ADDR
                          else if x = 9 then TYPE_PARAM_BACKINGSTORE_BASE_HW
                          else TYPE_PARAM_DEFAULT),
      pbdma_gp_entry1_length_f = (\<lambda>v. push_bit 10 (v AND 0x1FFFFF)),
      NVHOST_GPU_COMPBITS_GPU = 1, NVHOST_GPU_COMPBITS_CDEH = 2,
      NVHOST_GPU_COMPBITS_CDEV = 4, NVHOST_SUBMIT_GPFIFO_FLAGS_FENCE_GET = 2\<rparr>"

definition sample_config2 :: cde_config where
  "sample_config2 = sample_config\<lparr>NUM_CDE_CTX := 2\<rparr>"

definition sample_gr :: gr_info where
  "sample_gr =
     \<lparr>comptags_per_cacheline = 4, ltc_count = 1, slices_per_ltc = 2, cacheline_size = 128,
      compbit_store_size = 0x10000, compbit_store_base_hw = 0x200, compbit_store_sgt = 7,
      pmu_vm = 9\<rparr>"

definition zero_mem :: mem_desc where
  "zero_mem = \<lparr>sgt = 0, iova = 0, cpuva = 0, md_num_bytes = 0, gpu_va = 0,
               content = (\<lambda>k. 0)\<rparr>"

definition zero_param :: hdr_param where
  "zero_param = \<lparr>par_id = 0, par_target_buf = 0, par_shift = 0,
                 par_type = TYPE_PARAM_TYPE_U32, par_data_offset = 0,
                 par_target_byte_offset = 0, par_mask = 0\<rparr>"

definition zero_ctx :: cde_ctx where
  "zero_ctx =
     \<lparr>ch = 0, vm = 0, backing_store_vaddr = 0, mem = (\<lambda>i. zero_mem), num_bufs = 0,
      params = (\<lambda>i. zero_param), num_params = 0, obj_ids = (\<lambda>i. 0), num_obj_ids = 0,
      init_cmd = 0, init_cmd_entries = [], init_cmd_num_entries = 0,
      convert_cmd = 0, convert_cmd_entries = [], convert_cmd_num_entries = 0,
      src_vaddr = 0, src_param_offset = 0, src_param_lines = 0, dest_vaddr = 0,
      dest_size = 0, user_param_values = (\<lambda>k. 0)\<rparr>"

definition zero_app :: cde_app where
  "zero_app =
     \<lparr>initialised = False, app_vm = 0, cde_ctx = (\<lambda>i. zero_ctx), cde_ctx_ptr = 0,
      shader_parameter = 0\<rparr>"

text \<open>
  An image without elements, and a kernel in which every call succeeds and hands out
  addresses that depend on the moment of the call.
\<close>

definition empty_img :: firmware where
  "empty_img =
     \<lparr>fw_size = 8, fw_version = 1, fw_num_of_elems = 0,
      fw_elem = (\<lambda>i. TYPE_UNKNOWN 0),
      fw_cmd_elem = (\<lambda>off j. \<lparr>ce_target_buf = 0, ce_target_byte_offset = 0, ce_num_bytes = 0\<rparr>),
      fw_data = (\<lambda>k. 0)\<rparr>"

definition env_ok :: env where
  "env_ok =
     \<lparr>e_dma_alloc_coherent = (\<lambda>t. (4096 + t, 8192)),
      e_get_sgtable = (\<lambda>t. (Success, 64 + t)),
      e_gmmu_map = (\<lambda>t. 0x100000),
      e_alloc_obj_ctx = (\<lambda>t. (Success, 1)),
      e_kzalloc = (\<lambda>t. 512 + t),
      e_request_firmware = (\<lambda>t. Some empty_img),
      e_open_new_channel = (\<lambda>t. 3),
      e_commit_va = (\<lambda>t. Success),
      e_alloc_channel_gpfifo = (\<lambda>t. Success),
      e_dmabuf_alloc_drvdata = (\<lambda>t. Success),
      e_vm_map = (\<lambda>t. 0x400000),
      e_has_timedout = (\<lambda>t. False),
      e_channel_finish = (\<lambda>t. Success),
      e_get_comptags = (\<lambda>t. (0, 0)),
      e_gpuva_to_iova = (\<lambda>t. 0x800000),
      e_submit_channel_gpfifo = (\<lambda>t. (Success, 5)),
      e_dma_buf_get = (\<lambda>t. Some \<lparr>db_id = 1, db_size = 0x1000\<rparr>),
      e_dmabuf_get_state = (\<lambda>t. Success),
      e_uninitialised = Success\<rparr>"

text \<open>The same kernel, except that \<open>gk20a_get_sgtable\<close> fails.\<close>

definition env_sgt_fails :: env where
  "env_sgt_fails = env_ok\<lparr>e_get_sgtable := (\<lambda>t. (Failure (EOTHER (- 12)), 0))\<rparr>"

text \<open>
  A kernel in which \<open>gk20a_mm_gpuva_to_iova\<close> finds no address, and a context with one
  buffer and one parameter of id \<open>TYPE_PARAM_SOURCE_SMMU_ADDR\<close> that patches a whole
  64-bit word of that buffer.
\<close>

definition env_no_iova :: env where
  "env_no_iova = env_ok\<lparr>e_gpuva_to_iova := (\<lambda>t. 0)\<rparr>"

definition smmu_param :: hdr_param where
  "smmu_param = \<lparr>par_id = 8, par_target_buf = 0, par_shift = 0,
                 par_type = TYPE_PARAM_TYPE_U64_LITTLE, par_data_offset = 0,
                 par_target_byte_offset = 0, par_mask = - 1\<rparr>"

definition ctx_one_param :: cde_ctx where
  "ctx_one_param =
     zero_ctx\<lparr>num_bufs := 1,
       mem := (\<lambda>i. zero_mem\<lparr>md_num_bytes := 16, content := (\<lambda>k. 0xDEADBEEF)\<rparr>),
       num_params := 1, params := (\<lambda>i. smmu_param)\<rparr>"

subsection \<open>Declared command lists\<close>

text \<open>
  Two readings of "a command list was declared with a nonzero entry count", both over the
  elements of an image in file order: \<open>declared op es\<close> says that some
  \<open>TYPE_COMMAND\<close> element for the operation has a nonzero \<open>num_entries\<close>;
  \<open>declared_entries op es\<close> is the \<open>num_entries\<close> of the last \<open>TYPE_COMMAND\<close>
  element for the operation, and \<open>elem_entries\<close> that of a single element.
\<close>

primrec declared_entries :: "cmd_op \<Rightarrow> hdr_elem list \<Rightarrow> u32 option" where
  "declared_entries op [] = None"
| "declared_entries op (e # es) =
     (case declared_entries op es of
        Some n \<Rightarrow> Some n
      | None \<Rightarrow>
          (case e of
             TYPE_COMMAND c \<Rightarrow> if cmd_op c = op then Some (cmd_num_entries c) else None
           | _ \<Rightarrow> None))"

definition declares :: "cmd_op \<Rightarrow> hdr_elem \<Rightarrow> bool" where
  "declares op e =
     (case e of TYPE_COMMAND c \<Rightarrow> cmd_op c = op \<and> cmd_num_entries c \<noteq> 0 | _ \<Rightarrow> False)"

definition declared :: "cmd_op \<Rightarrow> hdr_elem list \<Rightarrow> bool" where
  "declared op es = list_ex (declares op) es"

definition elem_entries :: "cmd_op \<Rightarrow> hdr_elem \<Rightarrow> u32 option" where
  "elem_entries op e =
     (case e of
        TYPE_COMMAND c \<Rightarrow> if cmd_op c = op then Some (cmd_num_entries c) else None
      | _ \<Rightarrow> None)"

text \<open>
  An image with one buffer and one command list of one entry for each operation, and the
  same image followed by a second, empty command list for \<open>init\<close>.
\<close>

definition sample_cmd_elem :: cmd_elem where
  "sample_cmd_elem = \<lparr>ce_target_buf = 0, ce_target_byte_offset = 0, ce_num_bytes = 16\<rparr>"

definition good_img :: firmware where
  "good_img =
     \<lparr>fw_size = 1024, fw_version = 1, fw_num_of_elems = 3,
      fw_elem = (\<lambda>i. if i = 0 then TYPE_BUF \<lparr>data_byte_offset = 0, num_bytes = 256\<rparr>
                     else if i = 1
                     then TYPE_COMMAND \<lparr>cmd_op = TYPE_BUF_COMMAND_INIT, cmd_num_entries = 1,
                                         cmd_data_byte_offset = 512\<rparr>
                     else TYPE_COMMAND \<lparr>cmd_op = TYPE_BUF_COMMAND_CONVERT, cmd_num_entries = 1,
                                         cmd_data_byte_offset = 512\<rparr>),
      fw_cmd_elem = (\<lambda>off j. sample_cmd_elem),
      fw_data = (\<lambda>k. 0)\<rparr>"

definition dup_img :: firmware where
  "dup_img =
     good_img\<lparr>fw_num_of_elems := 4,
       fw_elem := (\<lambda>i. if i = 3
                       then TYPE_COMMAND \<lparr>cmd_op = TYPE_BUF_COMMAND_INIT, cmd_num_entries = 0,
                                           cmd_data_byte_offset = 512\<rparr>
                       else fw_elem good_img i)\<rparr>"

subsection \<open>Pool invariant\<close>

text \<open>
  The part of the invariant that is about the pointer alone: once the pool reports itself
  initialised, the round-robin pointer is the index of a slot. \<open>same_pool\<close> relates two
  states of the pool that agree on the flag and the pointer. \<open>slot_loaded\<close> is what a
  load that went through leaves in a slot: a channel and both command lists.
\<close>

definition pointer_in_range :: "cde_config \<Rightarrow> cde_app \<Rightarrow> bool" where
  "pointer_in_range cfg app = (initialised app \<longrightarrow> cde_ctx_ptr app < NUM_CDE_CTX cfg)"

definition same_pool :: "cde_app \<Rightarrow> cde_app \<Rightarrow> bool" where
  "same_pool app app' =
     (initialised app' = initialised app \<and> cde_ctx_ptr app' = cde_ctx_ptr app)"

definition slot_loaded :: "cde_ctx \<Rightarrow> bool" where
  "slot_loaded ctx =
     (ch ctx \<noteq> 0 \<and> init_cmd ctx \<noteq> 0 \<and> init_cmd_num_entries ctx \<noteq> 0 \<and>
      convert_cmd ctx \<noteq> 0 \<and> convert_cmd_num_entries ctx \<noteq> 0)"

text \<open>
  A pool of two slots that an earlier initialisation has loaded; a kernel in which the
  firmware is missing for the first calls and present from then on; a kernel in which the
  channel has timed out and the firmware is missing; two buffers.
\<close>

definition env_first_load_fails :: env where
  "env_first_load_fails =
     env_ok\<lparr>e_request_firmware := (\<lambda>t. if t < 10 then None else Some good_img)\<rparr>"

definition loaded_app :: cde_app where
  "loaded_app = zero_app\<lparr>initialised := True\<rparr>"

definition env_timedout :: env where
  "env_timedout = env_ok\<lparr>e_has_timedout := (\<lambda>t. True), e_request_firmware := (\<lambda>t. None)\<rparr>"

definition sample_src :: dma_buf where
  "sample_src = \<lparr>db_id = 1, db_size = 0x1000\<rparr>"

definition sample_dst :: dma_buf where
  "sample_dst = \<lparr>db_id = 2, db_size = 0x2000\<rparr>"


text \<open>
  \<open>slot_torn_down\<close> is what \<open>gk20a_deinit_cde_img\<close> leaves in a slot: no command
  lists, no buffers, no parameters and no object contexts.
\<close>

definition slot_torn_down :: "cde_ctx \<Rightarrow> bool" where
  "slot_torn_down ctx =
     (init_cmd ctx = 0 \<and> init_cmd_num_entries ctx = 0 \<and>
      convert_cmd ctx = 0 \<and> convert_cmd_num_entries ctx = 0 \<and>
      num_bufs ctx = 0 \<and> num_params ctx = 0 \<and> num_obj_ids ctx = 0)"

text \<open>
  The values that the loop of \<open>gk20a_cde_reload\<close> assigns to \<open>err\<close>, one for each
  slot, in the order of the loop; and the first error in such a list (\<open>Success\<close> if there
  is none).
\<close>

primrec reload_statuses ::
  "cde_config \<Rightarrow> env \<Rightarrow> gr_info \<Rightarrow> nat list \<Rightarrow> cde_app \<Rightarrow> event list \<Rightarrow> status list" where
  "reload_statuses cfg env g [] app tr = []"
| "reload_statuses cfg env g (i # is) app tr =
     (case reload_slot cfg env g i (Success, app, tr) of
        (err, app', tr') \<Rightarrow> err # reload_statuses cfg env g is app' tr')"

primrec first_error :: "status list \<Rightarrow> status" where
  "first_error [] = Success"
| "first_error (s # ss) = (case s of Failure e \<Rightarrow> Failure e | Success \<Rightarrow> first_error ss)"

text \<open>
  A kernel in which the backing store cannot be mapped; a kernel that has the firmware
  \<open>good_img\<close>; the pool of one slot as \<open>gk20a_init_cde_support\<close> leaves it in that
  kernel; and a set of locals whose tile pitch is not a multiple of the work group width.
\<close>

definition env_map_fails :: env where
  "env_map_fails = env_ok\<lparr>e_gmmu_map := (\<lambda>t. 0)\<rparr>"

definition env_good :: env where
  "env_good = env_ok\<lparr>e_request_firmware := (\<lambda>t. Some good_img)\<rparr>"

definition initialised_app :: cde_app where
  "initialised_app =
     fst (snd (gk20a_init_cde_support sample_config env_good sample_gr zero_app []))"

definition sample_geometry :: geometry where
  "sample_geometry =
     \<lparr>xtiles = 17, ytiles = 8, tilepitch = 17, ytilesaligned = 8, gridw = 2, gridh = 1\<rparr>"

section \<open>Binary patcher\<close>

lemma swap_halves_involution: "swap_halves (swap_halves x) = x"
proof (rule bit_word_eqI)
  fix n assume "n < LENGTH(64)"
  then show "bit (swap_halves (swap_halves x)) n = bit x n"
    unfolding swap_halves_def by (cases "n < 32") (auto simp: bit_simps)
qed

lemma low32_mask: "(0xFFFFFFFF :: u64) = mask 32"
  by (simp add: mask_eq_exp_minus_1)

lemma ucast_read_write_u32: "ucast (read_u32 (write_u32 cell w)) = (ucast w :: u64)"
  unfolding read_u32_def write_u32_def low32_mask
  by (rule bit_word_eqI) (auto simp: bit_simps dest: bit_imp_le_length)

lemma ucast_down_up_32: "(ucast (ucast (x::u64) :: u32) :: u64) = x AND 0xFFFFFFFF"
  unfolding low32_mask
  by (rule bit_word_eqI) (auto simp: bit_simps)

lemma write_u32_high: "write_u32 cell w AND NOT 0xFFFFFFFF = cell AND NOT 0xFFFFFFFF"
  unfolding write_u32_def low32_mask
  by (rule bit_word_eqI) (auto simp: bit_simps dest: bit_imp_le_length)

lemma write_u32_high_simp: "write_u32 cell w AND - 4294967296 = cell AND - 4294967296"
  using write_u32_high [of cell w] by simp

lemma patch_bits_in: "((a AND NOT m) OR (v AND m)) AND m = v AND (m :: u64)"
  by (rule bit_word_eqI) (auto simp: bit_simps)

lemma patch_bits_out: "((a AND NOT m) OR (v AND m)) AND NOT m = a AND NOT (m :: u64)"
  by (rule bit_word_eqI) (auto simp: bit_simps)

lemma patch_bits_in32:
  "(((a AND NOT m) OR (v AND m)) AND 0xFFFFFFFF) AND m = (v AND m) AND (0xFFFFFFFF :: u64)"
  by (rule bit_word_eqI) (auto simp: bit_simps)

lemma patch_bits_out32:
  "(((ucast (w :: u32) AND NOT m) OR (v AND m)) AND 0xFFFFFFFF) AND NOT m = ucast w AND NOT (m :: u64)"
  unfolding low32_mask
  by (rule bit_word_eqI) (auto simp: bit_simps dest: bit_imp_le_length)

text \<open>
  Claim C8, as amended. After \<open>gk20a_replace_data\<close> has patched a location, reading the
  location back the way the patch type reads it and applying the mask gives the masked
  bits of the shifted value that the patch type can store: all of them for the two 64-bit
  types, the low 32 bits for the 32-bit type, whose store is a \<open>(u32)\<close> cast. The bits
  of the target outside the mask are the ones it had before, and a 32-bit patch leaves the
  four bytes behind the target word alone.
\<close>

theorem replace_data_roundtrip:
  "gk20a_replace_data type shift msk val cell = Inr cell' \<Longrightarrow>
   \<exists>r r'. read_target type cell = Inr r \<and> read_target type cell' = Inr r' \<and>
     r' AND msk = (shift_value shift val AND msk) AND type_width_mask type \<and>
     r' AND NOT msk = r AND NOT msk \<and>
     cell' AND NOT (type_width_mask type) = cell AND NOT (type_width_mask type)"
proof (cases type)
  case TYPE_PARAM_TYPE_U32
  assume "gk20a_replace_data type shift msk val cell = Inr cell'"
  with TYPE_PARAM_TYPE_U32 show ?thesis
    by (auto simp: gk20a_replace_data_def read_target_def type_width_mask_def Let_def
        ucast_read_write_u32 ucast_down_up_32 patch_bits_in32 patch_bits_out32 write_u32_high_simp)
next
  case TYPE_PARAM_TYPE_U64_LITTLE
  assume "gk20a_replace_data type shift msk val cell = Inr cell'"
  with TYPE_PARAM_TYPE_U64_LITTLE show ?thesis
    by (auto simp: gk20a_replace_data_def read_target_def type_width_mask_def Let_def
        patch_bits_in patch_bits_out)
next
  case TYPE_PARAM_TYPE_U64_BIG
  assume "gk20a_replace_data type shift msk val cell = Inr cell'"
  with TYPE_PARAM_TYPE_U64_BIG show ?thesis
    by (auto simp: gk20a_replace_data_def read_target_def type_width_mask_def Let_def
        patch_bits_in patch_bits_out swap_halves_involution)
next
  case (TYPE_PARAM_TYPE_OTHER t)
  assume "gk20a_replace_data type shift msk val cell = Inr cell'"
  with TYPE_PARAM_TYPE_OTHER show ?thesis
    by (simp add: gk20a_replace_data_def)
qed

theorem replace_data_roundtrip_witness:
  "gk20a_replace_data TYPE_PARAM_TYPE_U64_BIG (- 8) 0xFFFF 0x123456 0xAAAABBBBCCCCDDDD
     = Inr 0xAAAA1234CCCCDDDD \<and>
   (\<exists>r r'. read_target TYPE_PARAM_TYPE_U64_BIG 0xAAAABBBBCCCCDDDD = Inr r \<and>
     read_target TYPE_PARAM_TYPE_U64_BIG 0xAAAA1234CCCCDDDD = Inr r' \<and>
     r' AND 0xFFFF = (shift_value (- 8) 0x123456 AND 0xFFFF)
        AND type_width_mask TYPE_PARAM_TYPE_U64_BIG \<and>
     r' AND NOT 0xFFFF = r AND NOT 0xFFFF \<and>
     0xAAAA1234CCCCDDDD AND NOT (type_width_mask TYPE_PARAM_TYPE_U64_BIG)
       = 0xAAAABBBBCCCCDDDD AND NOT (type_width_mask TYPE_PARAM_TYPE_U64_BIG))"
proof -
  have e: "gk20a_replace_data TYPE_PARAM_TYPE_U64_BIG (- 8) 0xFFFF 0x123456 0xAAAABBBBCCCCDDDD
     = Inr 0xAAAA1234CCCCDDDD"
    by (simp add: gk20a_replace_data_def shift_value_def swap_halves_def Let_def)
  from replace_data_roundtrip [OF e] e show ?thesis by simp
qed

text \<open>
  Claim C8 as stated fails for the 32-bit type when the mask selects bits above bit 31:
  with mask \<open>0xFFFFFFFFFFFFFFFF\<close>, shift \<open>0\<close> and value \<open>2 ^ 32\<close> on a target
  holding \<open>0\<close>, the word written is \<open>0\<close>, and reading it back under the mask gives
  \<open>0\<close>, not the masked value \<open>2 ^ 32\<close>.
\<close>

theorem replace_data_roundtrip_counterexample:
  "gk20a_replace_data TYPE_PARAM_TYPE_U32 0 (- 1) 0x100000000 0 = Inr 0 \<and>
   read_target TYPE_PARAM_TYPE_U32 0 = Inr 0 \<and>
   (0 :: u64) AND (- 1) \<noteq> shift_value 0 0x100000000 AND (- 1)"
  by (simp add: gk20a_replace_data_def read_target_def shift_value_def read_u32_def
      write_u32_def)


section \<open>Buffer allocator\<close>

text \<open>
  Claim C6 on the code. With the buffer table full (\<open>num_bufs = MAX_CDE_BUFS\<close>) the
  test \<open>num_bufs > MAX_CDE_BUFS\<close> does not fire: if the kernel calls succeed, the
  declaration is accepted, the buffer is allocated and mapped, it is stored at index
  \<open>MAX_CDE_BUFS\<close> (one behind the array) and the count becomes \<open>MAX_CDE_BUFS + 1\<close>.
\<close>

theorem init_cde_buf_full_table:
  assumes "num_bufs ctx = MAX_CDE_BUFS cfg"
    and "data_byte_offset buf = 0"
    and "e_dma_alloc_coherent env (length tr) = (va, io)" and "va \<noteq> 0"
    and "e_get_sgtable env (Suc (length tr)) = (Success, sg)"
    and "e_gmmu_map env (Suc (Suc (length tr))) = gva" and "gva \<noteq> 0"
  shows "\<exists>ctx'. gk20a_init_cde_buf cfg env img buf ctx tr
           = (Success, ctx',
              tr @ [Dma_alloc_coherent (num_bytes buf), Get_sgtable va io (num_bytes buf),
                    Gmmu_map sg (num_bytes buf)]) \<and>
         num_bufs ctx' = MAX_CDE_BUFS cfg + 1 \<and>
         cpuva (mem ctx' (MAX_CDE_BUFS cfg)) = va \<and>
         gpu_va (mem ctx' (MAX_CDE_BUFS cfg)) = gva"
  using assms by (simp add: gk20a_init_cde_buf_def Let_def)

theorem init_cde_buf_full_table_witness:
  "num_bufs (zero_ctx\<lparr>num_bufs := 10\<rparr>) = MAX_CDE_BUFS sample_config \<and>
   (\<exists>ctx'. gk20a_init_cde_buf sample_config env_ok empty_img
              \<lparr>data_byte_offset = 0, num_bytes = 256\<rparr> (zero_ctx\<lparr>num_bufs := 10\<rparr>) []
           = (Success, ctx',
              [Dma_alloc_coherent 256, Get_sgtable 4096 8192 256, Gmmu_map 65 256]) \<and>
         num_bufs ctx' = 11)"
proof -
  have a: "num_bufs (zero_ctx\<lparr>num_bufs := 10\<rparr>) = MAX_CDE_BUFS sample_config"
    by (simp add: sample_config_def)
  have b: "e_dma_alloc_coherent env_ok (length ([] :: event list)) = (4096, 8192)"
    by (simp add: env_ok_def)
  have c: "e_get_sgtable env_ok (Suc (length ([] :: event list))) = (Success, 65)"
    by (simp add: env_ok_def)
  have d: "e_gmmu_map env_ok (Suc (Suc (length ([] :: event list)))) = 0x100000"
    by (simp add: env_ok_def)
  from init_cde_buf_full_table [where img = empty_img and buf = "\<lparr>data_byte_offset = 0, num_bytes = 256\<rparr>", OF a _ b _ c d]
  have "\<exists>ctx'. gk20a_init_cde_buf sample_config env_ok empty_img
              \<lparr>data_byte_offset = 0, num_bytes = 256\<rparr> (zero_ctx\<lparr>num_bufs := 10\<rparr>) []
           = (Success, ctx',
              [Dma_alloc_coherent 256, Get_sgtable 4096 8192 256, Gmmu_map 65 256]) \<and>
         num_bufs ctx' = MAX_CDE_BUFS sample_config + 1 \<and>
         cpuva (mem ctx' (MAX_CDE_BUFS sample_config)) = 4096 \<and>
         gpu_va (mem ctx' (MAX_CDE_BUFS sample_config)) = 0x100000"
    by simp
  moreover have "MAX_CDE_BUFS sample_config + 1 = 11"
    by (simp add: sample_config_def)
  ultimately show ?thesis using a by auto
qed

text \<open>
  Claim C7 on the code. Once the two entry tests have passed, \<open>gk20a_init_cde_buf\<close>
  succeeds exactly when the allocation, the scatter-gather table and the mapping all
  succeed; the count goes up by one exactly then, and every failure returns \<open>-ENOMEM\<close>
  with the count unchanged. The release calls of the failure paths are the ones listed.
  On both paths \<open>dma_free_coherent\<close> is handed \<open>&mem->cpuva\<close>, the address of the
  descriptor's field, and not the pointer \<open>mem->cpuva\<close> that \<open>dma_alloc_coherent\<close>
  returned and that \<open>gk20a_deinit_cde_img\<close> passes for the same buffer.
\<close>

theorem init_cde_buf_outcomes:
  assumes "data_byte_offset buf = 0 \<or> \<not> data_byte_offset buf + num_bytes buf > fw_size img"
    and "\<not> num_bufs ctx > MAX_CDE_BUFS cfg"
    and "e_dma_alloc_coherent env (length tr) = (va, io)"
    and "e_get_sgtable env (Suc (length tr)) = (st, sg)"
    and "e_gmmu_map env (Suc (Suc (length tr))) = gva"
    and "gk20a_init_cde_buf cfg env img buf ctx tr = (r, ctx', tr')"
  shows "r = (if va \<noteq> 0 \<and> st = Success \<and> gva \<noteq> 0 then Success else Failure ENOMEM) \<and>
         num_bufs ctx' = (if r = Success then num_bufs ctx + 1 else num_bufs ctx) \<and>
         tr' = tr @ Dma_alloc_coherent (num_bytes buf) #
           (if va = 0 then []
            else Get_sgtable va io (num_bytes buf) #
              (if st \<noteq> Success
               then [Dma_free_coherent (num_bytes buf) (Addr_of_cpuva (num_bufs ctx)) io]
               else Gmmu_map sg (num_bytes buf) #
                 (if gva = 0
                  then [Free_sgtable sg, Kfree_sgt (num_bufs ctx),
                        Dma_free_coherent (num_bytes buf) (Addr_of_cpuva (num_bufs ctx)) io]
                  else []))) \<and>
         cpuva (mem ctx' (num_bufs ctx)) = va \<and>
         iova (mem ctx' (num_bufs ctx)) = io \<and>
         md_num_bytes (mem ctx' (num_bufs ctx)) = num_bytes buf \<and>
         Dma_free_coherent (num_bytes buf) (Cpuva va) io
           \<in> set (deinit_buf (mem ctx' (num_bufs ctx))) \<and>
         Addr_of_cpuva (num_bufs ctx) \<noteq> Cpuva va"
  using assms by (auto simp: gk20a_init_cde_buf_def Let_def deinit_buf_def split: if_splits)

theorem init_cde_buf_outcomes_witness:
  "gk20a_init_cde_buf sample_config env_sgt_fails empty_img
      \<lparr>data_byte_offset = 0, num_bytes = 256\<rparr> zero_ctx []
     = (Failure ENOMEM,
        zero_ctx\<lparr>mem := (mem zero_ctx)
           (0 := zero_mem\<lparr>md_num_bytes := 256, cpuva := 4096, iova := 8192, sgt := 0\<rparr>)\<rparr>,
        [Dma_alloc_coherent 256, Get_sgtable 4096 8192 256,
         Dma_free_coherent 256 (Addr_of_cpuva 0) 8192]) \<and>
   Dma_free_coherent 256 (Cpuva 4096) 8192
     \<in> set (deinit_buf (zero_mem\<lparr>md_num_bytes := 256, cpuva := 4096, iova := 8192, sgt := 0\<rparr>))"
proof -
  have e: "gk20a_init_cde_buf sample_config env_sgt_fails empty_img
      \<lparr>data_byte_offset = 0, num_bytes = 256\<rparr> zero_ctx []
     = (Failure ENOMEM,
        zero_ctx\<lparr>mem := (mem zero_ctx)
           (0 := zero_mem\<lparr>md_num_bytes := 256, cpuva := 4096, iova := 8192, sgt := 0\<rparr>)\<rparr>,
        [Dma_alloc_coherent 256, Get_sgtable 4096 8192 256,
         Dma_free_coherent 256 (Addr_of_cpuva 0) 8192])"
    by (simp add: gk20a_init_cde_buf_def Let_def env_sgt_fails_def env_ok_def sample_config_def
        zero_ctx_def empty_img_def)
  have a: "data_byte_offset \<lparr>data_byte_offset = 0, num_bytes = 256\<rparr> = 0
      \<or> \<not> data_byte_offset \<lparr>data_byte_offset = 0, num_bytes = 256\<rparr>
            + num_bytes \<lparr>data_byte_offset = 0, num_bytes = 256\<rparr> > fw_size empty_img"
    by simp
  have b: "\<not> num_bufs zero_ctx > MAX_CDE_BUFS sample_config"
    by (simp add: zero_ctx_def)
  have c: "e_dma_alloc_coherent env_sgt_fails (length ([] :: event list)) = (4096, 8192)"
    by (simp add: env_sgt_fails_def env_ok_def)
  have d: "e_get_sgtable env_sgt_fails (Suc (length ([] :: event list)))
             = (Failure (EOTHER (- 12)), 0)"
    by (simp add: env_sgt_fails_def env_ok_def)
  from init_cde_buf_outcomes [OF a b c d refl e] e
  show ?thesis by (simp add: zero_ctx_def)
qed

section \<open>Compression state\<close>

text \<open>
  Claim C2 on the code. On an initialised pool, a request for "none" on a surface with a
  nonzero mask of valid bits takes the branch that sets \<open>err = -EINVAL\<close> and jumps to
  \<open>out\<close>, where the function returns \<open>0\<close>: the caller sees success, nothing is stored
  through \<open>valid_compbits\<close> or \<open>fence_out\<close>, the tracked fence is released and the mask
  of valid bits is unchanged.
\<close>

theorem prepare_read_none_returns_zero:
  assumes "initialised app"
    and "e_dma_buf_get env (length tr) = Some dmabuf"
    and "e_dmabuf_get_state env (Suc (length tr)) = Success"
    and "valid_compbits st \<noteq> 0"
  shows "gk20a_prepare_compressible_read cfg env g buffer_fd NVHOST_GPU_COMPBITS_NONE offset
           compbits_hoffset compbits_voffset width height block_height_log2 submit_flags fence
           want_valid want_fence st app tr
         = (\<lparr>rr_status = Success, rr_valid_compbits = None, rr_fence_out = None\<rparr>,
            st\<lparr>state_fence := 0\<rparr>, app,
            tr @ [Dma_buf_get buffer_fd, Dmabuf_get_state (db_id dmabuf) offset, State_lock,
                  Fence_put (state_fence st), State_unlock, Dma_buf_put (db_id dmabuf)])"
  using assms
  by (simp add: gk20a_prepare_compressible_read_def prepare_out_def Let_def)

theorem prepare_read_none_returns_zero_witness:
  "initialised (zero_app\<lparr>initialised := True\<rparr>) \<and>
   valid_compbits \<lparr>valid_compbits = 1, state_fence = 5\<rparr> \<noteq> 0 \<and>
   gk20a_prepare_compressible_read sample_config env_ok sample_gr 3 NVHOST_GPU_COMPBITS_NONE
       0 0 0 128 64 0 0 0 True True \<lparr>valid_compbits = 1, state_fence = 5\<rparr>
       (zero_app\<lparr>initialised := True\<rparr>) []
     = (\<lparr>rr_status = Success, rr_valid_compbits = None, rr_fence_out = None\<rparr>,
        \<lparr>valid_compbits = 1, state_fence = 0\<rparr>, zero_app\<lparr>initialised := True\<rparr>,
        [Dma_buf_get 3, Dmabuf_get_state 1 0, State_lock, Fence_put 5, State_unlock,
         Dma_buf_put 1])"
proof -
  have a: "initialised (zero_app\<lparr>initialised := True\<rparr>)" by simp
  have b: "e_dma_buf_get env_ok (length ([] :: event list)) = Some \<lparr>db_id = 1, db_size = 0x1000\<rparr>"
    by (simp add: env_ok_def)
  have c: "e_dmabuf_get_state env_ok (Suc (length ([] :: event list))) = Success"
    by (simp add: env_ok_def)
  have d: "valid_compbits \<lparr>valid_compbits = 1, state_fence = 5\<rparr> \<noteq> 0" by simp
  from prepare_read_none_returns_zero [OF a b c d, of sample_config sample_gr 3 0 0 0 128 64 0 0 0 True True]
  show ?thesis using a d by simp
qed

section \<open>Per-conversion patching\<close>

lemma cell_at_store_cell: "cell_at (store_cell c k v) k = v"
  unfolding cell_at_def store_cell_def
  apply simp
  apply (rule bit_word_eqI)
  subgoal for n by (cases "n < 32") (auto simp: bit_simps)
  done

text \<open>
  Claim C10. For a parameter of id \<open>TYPE_PARAM_SOURCE_SMMU_ADDR\<close> whose address lookup
  yields \<open>0\<close>, the \<open>switch\<close> sets the local \<open>err\<close> to \<open>-EINVAL\<close>, but the loop goes
  on to the patch call, whose result overwrites \<open>err\<close>: if the patch type is a known
  one, the word patched into the target is built from the address \<open>0\<close> (plus
  \<open>data_offset\<close>), the loop continues with \<open>err = 0\<close>, and a context with this single
  parameter makes \<open>gk20a_cde_patch_params\<close> return success.
\<close>

theorem patch_params_smmu_zero:
  assumes "param_id_of cfg (par_id param) = TYPE_PARAM_SOURCE_SMMU_ADDR"
    and "e_gpuva_to_iova env (length tr) = 0"
    and "gk20a_replace_data (par_type param) (par_shift param) (par_mask param)
           (par_data_offset param)
           (cell_at (content (mem ctx (unat (par_target_buf param))))
              (unat (par_target_byte_offset param div 4))) = Inr cell'"
  shows "param_new_data cfg env g ctx param err tr
           = Some (0, Some (Failure EINVAL), tr @ [Gpuva_to_iova (src_vaddr ctx)]) \<and>
         (\<exists>ctx'. patch_params_loop cfg env g (param # ps) err ctx tr
                   = patch_params_loop cfg env g ps (Some Success) ctx'
                       (tr @ [Gpuva_to_iova (src_vaddr ctx)]) \<and>
                 cell_at (content (mem ctx' (unat (par_target_buf param))))
                   (unat (par_target_byte_offset param div 4)) = cell' \<and>
                 (num_params ctx = 1 \<and> params ctx 0 = param \<longrightarrow>
                    gk20a_cde_patch_params cfg env g ctx tr
                      = (Success, ctx', tr @ [Gpuva_to_iova (src_vaddr ctx)])))"
  using assms
  by (auto simp: param_new_data_def patch_mem_def Let_def cell_at_store_cell
      gk20a_cde_patch_params_def)


theorem patch_params_smmu_zero_witness:
  "cell_at (content (mem ctx_one_param 0)) 0 = 0xDEADBEEFDEADBEEF \<and>
   (\<exists>ctx'. gk20a_cde_patch_params sample_config env_no_iova sample_gr ctx_one_param []
             = (Success, ctx', [Gpuva_to_iova 0]) \<and>
          cell_at (content (mem ctx' 0)) 0 = 0)"
proof -
  have a: "param_id_of sample_config (par_id smmu_param) = TYPE_PARAM_SOURCE_SMMU_ADDR"
    by (simp add: sample_config_def smmu_param_def)
  have b: "e_gpuva_to_iova env_no_iova (length ([] :: event list)) = 0"
    by (simp add: env_no_iova_def)
  have v: "cell_at (content (mem ctx_one_param 0)) 0 = 0xDEADBEEFDEADBEEF"
    by (simp add: ctx_one_param_def cell_at_def)
  have c: "gk20a_replace_data (par_type smmu_param) (par_shift smmu_param) (par_mask smmu_param)
           (par_data_offset smmu_param)
           (cell_at (content (mem ctx_one_param (unat (par_target_buf smmu_param))))
              (unat (par_target_byte_offset smmu_param div 4))) = Inr 0"
    by (simp add: smmu_param_def ctx_one_param_def cell_at_def gk20a_replace_data_def
        shift_value_def)
  have d: "num_params ctx_one_param = 1 \<and> params ctx_one_param 0 = smmu_param"
    by (simp add: ctx_one_param_def)
  have s: "src_vaddr ctx_one_param = 0" "unat (par_target_buf smmu_param) = 0"
    "unat (par_target_byte_offset smmu_param div 4) = 0"
    by (simp_all add: ctx_one_param_def zero_ctx_def smmu_param_def)
  from patch_params_smmu_zero [OF a b c, of sample_gr None "[]"] d v
  show ?thesis by (auto simp: s simp del: patch_params_loop.simps)
qed

section \<open>Firmware image parser\<close>

lemma up3: "[0..<3] = [0, 1, 2]" by (simp add: upt_rec)
lemma up4: "[0..<4] = [0, 1, 2, 3]" by (simp add: upt_rec)

lemma good_elems: "fw_elems good_img =
  [TYPE_BUF \<lparr>data_byte_offset = 0, num_bytes = 256\<rparr>,
   TYPE_COMMAND \<lparr>cmd_op = TYPE_BUF_COMMAND_INIT, cmd_num_entries = 1, cmd_data_byte_offset = 512\<rparr>,
   TYPE_COMMAND \<lparr>cmd_op = TYPE_BUF_COMMAND_CONVERT, cmd_num_entries = 1, cmd_data_byte_offset = 512\<rparr>]"
  by (simp add: fw_elems_def good_img_def up3)

lemma dup_elems: "fw_elems dup_img =
  [TYPE_BUF \<lparr>data_byte_offset = 0, num_bytes = 256\<rparr>,
   TYPE_COMMAND \<lparr>cmd_op = TYPE_BUF_COMMAND_INIT, cmd_num_entries = 1, cmd_data_byte_offset = 512\<rparr>,
   TYPE_COMMAND \<lparr>cmd_op = TYPE_BUF_COMMAND_CONVERT, cmd_num_entries = 1, cmd_data_byte_offset = 512\<rparr>,
   TYPE_COMMAND \<lparr>cmd_op = TYPE_BUF_COMMAND_INIT, cmd_num_entries = 0, cmd_data_byte_offset = 512\<rparr>]"
  by (simp add: fw_elems_def dup_img_def good_img_def up4)

lemma init_cde_buf_cmd_fields:
  "gk20a_init_cde_buf cfg env img buf ctx tr = (r, ctx', tr') \<Longrightarrow>
   init_cmd ctx' = init_cmd ctx \<and> init_cmd_num_entries ctx' = init_cmd_num_entries ctx \<and>
   convert_cmd ctx' = convert_cmd ctx \<and>
   convert_cmd_num_entries ctx' = convert_cmd_num_entries ctx"
  by (auto simp: gk20a_init_cde_buf_def Let_def split: if_splits prod.splits)

lemma init_cde_replace_cmd_fields:
  "gk20a_init_cde_replace replace ctx = (r, ctx') \<Longrightarrow>
   init_cmd ctx' = init_cmd ctx \<and> init_cmd_num_entries ctx' = init_cmd_num_entries ctx \<and>
   convert_cmd ctx' = convert_cmd ctx \<and>
   convert_cmd_num_entries ctx' = convert_cmd_num_entries ctx"
  by (auto simp: gk20a_init_cde_replace_def patch_mem_def Let_def split: if_splits sum.splits)

lemma init_cde_param_cmd_fields:
  "gk20a_init_cde_param cfg param ctx = (r, ctx') \<Longrightarrow>
   init_cmd ctx' = init_cmd ctx \<and> init_cmd_num_entries ctx' = init_cmd_num_entries ctx \<and>
   convert_cmd ctx' = convert_cmd ctx \<and>
   convert_cmd_num_entries ctx' = convert_cmd_num_entries ctx"
  by (auto simp: gk20a_init_cde_param_def split: if_splits)

lemma init_cde_required_class_cmd_fields:
  "gk20a_init_cde_required_class cfg env c ctx tr = (r, ctx', tr') \<Longrightarrow>
   init_cmd ctx' = init_cmd ctx \<and> init_cmd_num_entries ctx' = init_cmd_num_entries ctx \<and>
   convert_cmd ctx' = convert_cmd ctx \<and>
   convert_cmd_num_entries ctx' = convert_cmd_num_entries ctx"
  by (auto simp: gk20a_init_cde_required_class_def Let_def split: if_splits prod.splits)

lemma init_cde_command_success:
  "gk20a_init_cde_command cfg env op cmd n ctx tr = (Success, ctx', tr') \<Longrightarrow>
   (op = TYPE_BUF_COMMAND_INIT \<longrightarrow>
      init_cmd ctx' \<noteq> 0 \<and> init_cmd_num_entries ctx' = n \<and>
      convert_cmd ctx' = convert_cmd ctx \<and>
      convert_cmd_num_entries ctx' = convert_cmd_num_entries ctx) \<and>
   (op = TYPE_BUF_COMMAND_CONVERT \<longrightarrow>
      convert_cmd ctx' \<noteq> 0 \<and> convert_cmd_num_entries ctx' = n \<and>
      init_cmd ctx' = init_cmd ctx \<and>
      init_cmd_num_entries ctx' = init_cmd_num_entries ctx) \<and>
   (op = TYPE_BUF_COMMAND_INIT \<or> op = TYPE_BUF_COMMAND_CONVERT)"
  by (cases op)
     (auto simp: gk20a_init_cde_command_def Let_def split: if_splits prod.splits status.splits)

lemma init_cde_elem_success:
  assumes "init_cde_elem cfg env img e ctx tr = (Success, ctx', tr')"
  shows "(case elem_entries TYPE_BUF_COMMAND_INIT e of
            Some n \<Rightarrow> init_cmd ctx' \<noteq> 0 \<and> init_cmd_num_entries ctx' = n
          | None \<Rightarrow> init_cmd ctx' = init_cmd ctx
                     \<and> init_cmd_num_entries ctx' = init_cmd_num_entries ctx) \<and>
         (case elem_entries TYPE_BUF_COMMAND_CONVERT e of
            Some n \<Rightarrow> convert_cmd ctx' \<noteq> 0 \<and> convert_cmd_num_entries ctx' = n
          | None \<Rightarrow> convert_cmd ctx' = convert_cmd ctx
                     \<and> convert_cmd_num_entries ctx' = convert_cmd_num_entries ctx)"
proof (cases e)
  case (TYPE_BUF buf)
  with assms init_cde_buf_cmd_fields [of cfg env img buf ctx tr Success ctx' tr']
  show ?thesis by (simp add: init_cde_elem_def elem_entries_def)
next
  case (TYPE_REPLACE replace)
  with assms init_cde_replace_cmd_fields [of replace ctx Success ctx']
  show ?thesis by (auto simp: init_cde_elem_def elem_entries_def split: prod.splits)
next
  case (TYPE_PARAM param)
  with assms init_cde_param_cmd_fields [of cfg param ctx Success ctx']
  show ?thesis by (auto simp: init_cde_elem_def elem_entries_def split: prod.splits)
next
  case (TYPE_REQUIRED_CLASS c)
  with assms init_cde_required_class_cmd_fields [of cfg env c ctx tr Success ctx' tr']
  show ?thesis by (simp add: init_cde_elem_def elem_entries_def)
next
  case (TYPE_COMMAND c)
  with assms have "gk20a_init_cde_command cfg env (cmd_op c)
            (map (fw_cmd_elem img (cmd_data_byte_offset c)) [0..<unat (cmd_num_entries c)])
            (cmd_num_entries c) ctx tr = (Success, ctx', tr')"
    by (simp add: init_cde_elem_def)
  from init_cde_command_success [OF this] TYPE_COMMAND
  show ?thesis by (auto simp: elem_entries_def)
next
  case (TYPE_UNKNOWN t)
  with assms show ?thesis by (simp add: init_cde_elem_def)
qed

lemma declared_entries_Cons:
  "declared_entries op (e # es) =
     (case declared_entries op es of Some n \<Rightarrow> Some n | None \<Rightarrow> elem_entries op e)"
  by (simp add: elem_entries_def split: option.splits)

lemma init_cde_elems_success:
  "init_cde_elems cfg env img es ctx tr = (Success, ctx', tr') \<Longrightarrow>
   (case declared_entries TYPE_BUF_COMMAND_INIT es of
      Some n \<Rightarrow> init_cmd ctx' \<noteq> 0 \<and> init_cmd_num_entries ctx' = n
    | None \<Rightarrow> init_cmd ctx' = init_cmd ctx
               \<and> init_cmd_num_entries ctx' = init_cmd_num_entries ctx) \<and>
   (case declared_entries TYPE_BUF_COMMAND_CONVERT es of
      Some n \<Rightarrow> convert_cmd ctx' \<noteq> 0 \<and> convert_cmd_num_entries ctx' = n
    | None \<Rightarrow> convert_cmd ctx' = convert_cmd ctx
               \<and> convert_cmd_num_entries ctx' = convert_cmd_num_entries ctx)"
proof (induction es arbitrary: ctx tr)
  case Nil
  then show ?case by simp
next
  case (Cons e es)
  from Cons.prems obtain ctx1 tr1 where
    e: "init_cde_elem cfg env img e ctx tr = (Success, ctx1, tr1)" and
    r: "init_cde_elems cfg env img es ctx1 tr1 = (Success, ctx', tr')"
    by (auto split: prod.splits status.splits)
  from Cons.IH [OF r] init_cde_elem_success [OF e]
  show ?case
    unfolding declared_entries_Cons
    by (auto split: option.splits)
qed


text \<open>
  Claim C3, as amended. For an image that passes both size checks, whose elements are all
  handled without error, parsed into a context whose command pointers are \<open>NULL\<close> (as
  \<open>kzalloc\<close> and \<open>gk20a_deinit_cde_img\<close> leave them), \<open>gk20a_init_cde_img\<close> returns
  success if and only if the last \<open>init\<close> command list and the last \<open>convert\<close> command
  list that the image declares both have a nonzero entry count. Otherwise it returns
  \<open>-EINVAL\<close> and leaves the context as \<open>gk20a_deinit_cde_img\<close> leaves it: no buffers,
  parameters, classes or command lists.
\<close>

theorem init_cde_img_success_iff:
  assumes "header_fits img" and "elems_fit cfg img"
    and "init_cde_elems cfg env img (fw_elems img) ctx tr = (Success, ctx1, tr1)"
    and "init_cmd ctx = 0" and "convert_cmd ctx = 0"
  shows "(fst (gk20a_init_cde_img cfg env img ctx tr) = Success)
           = ((\<exists>n. declared_entries TYPE_BUF_COMMAND_INIT (fw_elems img) = Some n \<and> n \<noteq> 0) \<and>
              (\<exists>n. declared_entries TYPE_BUF_COMMAND_CONVERT (fw_elems img) = Some n \<and> n \<noteq> 0)) \<and>
         gk20a_init_cde_img cfg env img ctx tr
           = (if fst (gk20a_init_cde_img cfg env img ctx tr) = Success then (Success, ctx1, tr1)
              else (Failure EINVAL, gk20a_deinit_cde_img ctx1 tr1)) \<and>
         num_bufs (fst (gk20a_deinit_cde_img ctx1 tr1)) = 0 \<and>
         num_params (fst (gk20a_deinit_cde_img ctx1 tr1)) = 0 \<and>
         num_obj_ids (fst (gk20a_deinit_cde_img ctx1 tr1)) = 0 \<and>
         init_cmd (fst (gk20a_deinit_cde_img ctx1 tr1)) = 0 \<and>
         convert_cmd (fst (gk20a_deinit_cde_img ctx1 tr1)) = 0"
proof -
  note f = init_cde_elems_success [OF assms(3)]
  have iff: "(fst (gk20a_init_cde_img cfg env img ctx tr) = Success)
      = (\<not> (init_cmd ctx1 = 0 \<or> init_cmd_num_entries ctx1 = 0) \<and>
         \<not> (convert_cmd ctx1 = 0 \<or> convert_cmd_num_entries ctx1 = 0))"
    using assms(1-3) by (auto simp: gk20a_init_cde_img_def split: prod.splits)
  have a: "(\<not> (init_cmd ctx1 = 0 \<or> init_cmd_num_entries ctx1 = 0))
      = (\<exists>n. declared_entries TYPE_BUF_COMMAND_INIT (fw_elems img) = Some n \<and> n \<noteq> 0)"
    using f assms(4) by (auto split: option.splits)
  have b: "(\<not> (convert_cmd ctx1 = 0 \<or> convert_cmd_num_entries ctx1 = 0))
      = (\<exists>n. declared_entries TYPE_BUF_COMMAND_CONVERT (fw_elems img) = Some n \<and> n \<noteq> 0)"
    using f assms(5) by (auto split: option.splits)
  have c: "gk20a_init_cde_img cfg env img ctx tr
           = (if fst (gk20a_init_cde_img cfg env img ctx tr) = Success then (Success, ctx1, tr1)
              else (Failure EINVAL, gk20a_deinit_cde_img ctx1 tr1))"
    using assms(1-3) by (auto simp: gk20a_init_cde_img_def split: prod.splits)
  have e: "(fst (gk20a_init_cde_img cfg env img ctx tr) = Success)
           = ((\<exists>n. declared_entries TYPE_BUF_COMMAND_INIT (fw_elems img) = Some n \<and> n \<noteq> 0) \<and>
              (\<exists>n. declared_entries TYPE_BUF_COMMAND_CONVERT (fw_elems img) = Some n \<and> n \<noteq> 0))"
    unfolding iff a b ..
  have d: "num_bufs (fst (gk20a_deinit_cde_img ctx1 tr1)) = 0 \<and>
         num_params (fst (gk20a_deinit_cde_img ctx1 tr1)) = 0 \<and>
         num_obj_ids (fst (gk20a_deinit_cde_img ctx1 tr1)) = 0 \<and>
         init_cmd (fst (gk20a_deinit_cde_img ctx1 tr1)) = 0 \<and>
         convert_cmd (fst (gk20a_deinit_cde_img ctx1 tr1)) = 0"
    by (simp add: gk20a_deinit_cde_img_def)
  from e c d show ?thesis by (intro conjI) blast+
qed


lemmas parser_eval =
  init_cde_elem_def gk20a_init_cde_buf_def gk20a_init_cde_command_def Let_def
  env_ok_def sample_config_def zero_ctx_def good_img_def dup_img_def sample_cmd_elem_def
  zero_mem_def header_fits_def elems_fit_def

theorem init_cde_img_success_iff_witness:
  "header_fits good_img \<and> elems_fit sample_config good_img \<and>
   fst (init_cde_elems sample_config env_ok good_img (fw_elems good_img) zero_ctx []) = Success \<and>
   init_cmd zero_ctx = 0 \<and> convert_cmd zero_ctx = 0 \<and>
   declared_entries TYPE_BUF_COMMAND_INIT (fw_elems good_img) = Some 1 \<and>
   declared_entries TYPE_BUF_COMMAND_CONVERT (fw_elems good_img) = Some 1 \<and>
   fst (gk20a_init_cde_img sample_config env_ok good_img zero_ctx []) = Success"
proof -
  have a: "header_fits good_img" by (simp add: header_fits_def good_img_def)
  have b: "elems_fit sample_config good_img"
    by (simp add: elems_fit_def good_img_def sample_config_def)
  have l: "fst (init_cde_elems sample_config env_ok good_img (fw_elems good_img) zero_ctx [])
             = Success"
    unfolding good_elems by (simp add: parser_eval)
  then obtain ctx1 tr1 where
    c: "init_cde_elems sample_config env_ok good_img (fw_elems good_img) zero_ctx []
          = (Success, ctx1, tr1)"
    by (metis prod.collapse)
  have d: "init_cmd zero_ctx = 0" and e: "convert_cmd zero_ctx = 0"
    by (simp_all add: zero_ctx_def)
  have i: "declared_entries TYPE_BUF_COMMAND_INIT (fw_elems good_img) = Some 1"
    unfolding good_elems by simp
  have j: "declared_entries TYPE_BUF_COMMAND_CONVERT (fw_elems good_img) = Some 1"
    unfolding good_elems by simp
  from init_cde_img_success_iff [OF a b c d e] i j
  have "fst (gk20a_init_cde_img sample_config env_ok good_img zero_ctx []) = Success"
    by simp
  with a b l d e i j show ?thesis by blast
qed

text \<open>
  Claim C3 as stated fails when a command list is declared twice: the image \<open>dup_img\<close>
  declares an \<open>init\<close> and a \<open>convert\<close> list of one entry each and then an empty
  \<open>init\<close> list. Every element is handled without error (\<open>kzalloc\<close> of size \<open>0\<close>
  does not return \<open>NULL\<close>), the last declaration sets \<open>init_cmd_num_entries\<close> to
  \<open>0\<close>, and the parse fails.
\<close>

theorem init_cde_img_success_iff_counterexample:
  "header_fits dup_img \<and> elems_fit sample_config dup_img \<and>
   fst (init_cde_elems sample_config env_ok dup_img (fw_elems dup_img) zero_ctx []) = Success \<and>
   declared TYPE_BUF_COMMAND_INIT (fw_elems dup_img) \<and>
   declared TYPE_BUF_COMMAND_CONVERT (fw_elems dup_img) \<and>
   fst (gk20a_init_cde_img sample_config env_ok dup_img zero_ctx []) = Failure EINVAL"
proof (intro conjI)
  show "header_fits dup_img" by (simp add: header_fits_def dup_img_def good_img_def)
  show "elems_fit sample_config dup_img"
    by (simp add: elems_fit_def dup_img_def good_img_def sample_config_def)
  show "fst (init_cde_elems sample_config env_ok dup_img (fw_elems dup_img) zero_ctx []) = Success"
    unfolding dup_elems by (simp add: parser_eval)
  show "declared TYPE_BUF_COMMAND_INIT (fw_elems dup_img)"
    unfolding dup_elems by (simp add: declared_def declares_def)
  show "declared TYPE_BUF_COMMAND_CONVERT (fw_elems dup_img)"
    unfolding dup_elems by (simp add: declared_def declares_def)
  show "fst (gk20a_init_cde_img sample_config env_ok dup_img zero_ctx []) = Failure EINVAL"
    unfolding gk20a_init_cde_img_def dup_elems
    by (simp add: parser_eval gk20a_deinit_cde_img_def)
qed

section \<open>Context pool\<close>


lemmas pool_eval =
  reload_slot_def remove_slot_def load_slot_def gk20a_cde_remove_def gk20a_deinit_cde_img_def
  gk20a_cde_load_def gk20a_init_cde_img_def

lemmas sample_eval =
  loaded_app_def zero_app_def zero_ctx_def zero_mem_def env_first_load_fails_def env_ok_def
  sample_config2_def sample_config_def sample_gr_def good_img_def sample_cmd_elem_def
  header_fits_def elems_fit_def fw_elems_def up3
  init_cde_elem_def gk20a_init_cde_buf_def gk20a_init_cde_command_def Let_def

subsection \<open>The record of calls only grows\<close>

lemma deinit_cde_img_len:
  "gk20a_deinit_cde_img ctx tr = (ctx', tr') \<Longrightarrow> length tr \<le> length tr'"
  by (auto simp: gk20a_deinit_cde_img_def)

lemma cde_remove_len:
  "gk20a_cde_remove g ctx tr = (ctx', tr') \<Longrightarrow> length tr \<le> length tr'"
  by (auto simp: gk20a_cde_remove_def split: prod.splits dest!: deinit_cde_img_len)

lemma remove_slot_len:
  "remove_slot g i (app, tr) = (app', tr') \<Longrightarrow> length tr \<le> length tr'"
  by (auto simp: remove_slot_def split: prod.splits dest: cde_remove_len)

lemma fold_remove_slot_len:
  "fold (remove_slot g) is (app, tr) = (app', tr') \<Longrightarrow> length tr \<le> length tr'"
proof (induction "is" arbitrary: app tr)
  case Nil
  then show ?case by simp
next
  case (Cons i "is")
  obtain app1 tr1 where r: "remove_slot g i (app, tr) = (app1, tr1)"
    by (cases "remove_slot g i (app, tr)")
  with Cons.prems have "fold (remove_slot g) is (app1, tr1) = (app', tr')" by simp
  from Cons.IH [OF this] remove_slot_len [OF r] show ?case by simp
qed

lemma init_cde_buf_len:
  "gk20a_init_cde_buf cfg env img buf ctx tr = (r, ctx', tr') \<Longrightarrow> length tr \<le> length tr'"
  by (auto simp: gk20a_init_cde_buf_def Let_def split: if_splits prod.splits)

lemma init_cde_required_class_len:
  "gk20a_init_cde_required_class cfg env c ctx tr = (r, ctx', tr') \<Longrightarrow> length tr \<le> length tr'"
  by (auto simp: gk20a_init_cde_required_class_def Let_def split: if_splits prod.splits)

lemma init_cde_command_len:
  "gk20a_init_cde_command cfg env op cmd n ctx tr = (r, ctx', tr') \<Longrightarrow> length tr \<le> length tr'"
  by (cases op)
     (auto simp: gk20a_init_cde_command_def Let_def split: if_splits prod.splits status.splits)

lemma init_cde_elem_len:
  "init_cde_elem cfg env img e ctx tr = (r, ctx', tr') \<Longrightarrow> length tr \<le> length tr'"
  by (cases e)
     (auto simp: init_cde_elem_def split: prod.splits
        dest: init_cde_buf_len init_cde_required_class_len init_cde_command_len)

lemma init_cde_elems_len:
  "init_cde_elems cfg env img es ctx tr = (r, ctx', tr') \<Longrightarrow> length tr \<le> length tr'"
proof (induction es arbitrary: ctx tr)
  case Nil
  then show ?case by simp
next
  case (Cons e es)
  obtain r1 ctx1 tr1 where e: "init_cde_elem cfg env img e ctx tr = (r1, ctx1, tr1)"
    by (metis prod_cases3)
  note l = init_cde_elem_len [OF e]
  show ?case
  proof (cases r1)
    case Success
    with e Cons.prems have "init_cde_elems cfg env img es ctx1 tr1 = (r, ctx', tr')" by simp
    from Cons.IH [OF this] l show ?thesis by simp
  next
    case (Failure x)
    with e Cons.prems l show ?thesis by simp
  qed
qed

lemma init_cde_img_len:
  "gk20a_init_cde_img cfg env img ctx tr = (r, ctx', tr') \<Longrightarrow> length tr \<le> length tr'"
  by (auto simp: gk20a_init_cde_img_def split: if_splits prod.splits status.splits
      dest!: init_cde_elems_len deinit_cde_img_len)

lemma cde_load_len:
  "gk20a_cde_load cfg env g ctx tr = (r, ctx', tr') \<Longrightarrow> length tr \<le> length tr'"
  by (auto simp: gk20a_cde_load_def Let_def
      split: option.splits if_splits prod.splits status.splits dest!: init_cde_img_len)

lemma load_slot_len:
  "load_slot cfg env g i app tr = (r, app', tr') \<Longrightarrow> length tr \<le> length tr'"
  by (auto simp: load_slot_def split: prod.splits dest: cde_load_len)

lemma init_loop_len:
  "init_loop cfg env g is app tr = (r, app', tr') \<Longrightarrow> length tr \<le> length tr'"
proof (induction "is" arbitrary: app tr)
  case Nil
  then show ?case by simp
next
  case (Cons i "is")
  obtain e1 app1 tr1 where l: "load_slot cfg env g i app tr = (e1, app1, tr1)"
    by (metis prod_cases3)
  note n = load_slot_len [OF l]
  show ?case
  proof (cases e1)
    case Success
    with l Cons.prems have "init_loop cfg env g is app1 tr1 = (r, app', tr')" by simp
    from Cons.IH [OF this] n show ?thesis by simp
  next
    case (Failure e)
    with l Cons.prems n show ?thesis by simp
  qed
qed

lemma init_cde_support_len:
  assumes "gk20a_init_cde_support cfg env g app tr = (r, app', tr')"
  shows "length tr \<le> length tr'"
proof (cases "initialised app")
  case True
  with assms show ?thesis by (simp add: gk20a_init_cde_support_def)
next
  case False
  obtain e k app1 tr1 where
    l: "init_loop cfg env g [0..<NUM_CDE_CTX cfg] app (tr @ [Mutex_init, Mutex_lock])
          = ((e, k), app1, tr1)"
    by (metis prod_cases3 surj_pair)
  from init_loop_len [OF l] have n: "length tr \<le> length tr1" by simp
  show ?thesis
  proof (cases e)
    case Success
    with l False assms n show ?thesis by (auto simp: gk20a_init_cde_support_def)
  next
    case (Failure x)
    obtain app2 tr2 where
      f: "fold (remove_slot g) (rev [1..<Suc k]) (app1, tr1) = (app2, tr2)"
      by (cases "fold (remove_slot g) (rev [1..<Suc k]) (app1, tr1)")
    from fold_remove_slot_len [OF f] n l f Failure False assms show ?thesis
      by (auto simp: gk20a_init_cde_support_def)
  qed
qed

lemma fold_reload_slot_len:
  "fold (reload_slot cfg env g) is (err, app, tr) = (err', app', tr') \<Longrightarrow>
   length tr \<le> length tr'"
proof (induction "is" arbitrary: err app tr)
  case Nil
  then show ?case by simp
next
  case (Cons i "is")
  obtain app1 tr1 where r: "remove_slot g i (app, tr) = (app1, tr1)"
    by (cases "remove_slot g i (app, tr)")
  obtain e2 app2 tr2 where l: "load_slot cfg env g i app1 tr1 = (e2, app2, tr2)"
    by (metis prod_cases3)
  from r l have "reload_slot cfg env g i (err, app, tr) = (e2, app2, tr2)"
    by (simp add: reload_slot_def)
  with Cons.prems have "fold (reload_slot cfg env g) is (e2, app2, tr2) = (err', app', tr')"
    by simp
  from Cons.IH [OF this] remove_slot_len [OF r] load_slot_len [OF l] show ?case by simp
qed

lemma cde_reload_len:
  "gk20a_cde_reload cfg env g app tr = (r, app', tr') \<Longrightarrow> length tr \<le> length tr'"
  by (auto simp: gk20a_cde_reload_def split: if_splits prod.splits
      dest!: init_cde_support_len fold_reload_slot_len)

subsection \<open>The status returned by a reload\<close>





text \<open>
  With a single slot the last status is the first error.
\<close>

lemma reload_single_slot_first_error:
  assumes "initialised app" and "NUM_CDE_CTX cfg = 1"
  shows "fst (gk20a_cde_reload cfg env g app tr)
           = first_error (reload_statuses cfg env g [0..<NUM_CDE_CTX cfg] app
                            (tr @ [Busy, Mutex_lock]))"
proof -
  obtain e1 app1 tr1 where
    r: "reload_slot cfg env g 0 (Success, app, tr @ [Busy, Mutex_lock]) = (e1, app1, tr1)"
    by (metis prod_cases3)
  then have "reload_slot cfg env g 0 (e_uninitialised env, app, tr @ [Busy, Mutex_lock])
               = (e1, app1, tr1)"
    by (simp add: reload_slot_def)
  with assms r show ?thesis by (cases e1) (simp_all add: gk20a_cde_reload_def)
qed

subsection \<open>The slot at the round-robin pointer\<close>

lemma deinit_cde_img_torn_down:
  "gk20a_deinit_cde_img ctx tr = (ctx', tr') \<Longrightarrow> slot_torn_down ctx'"
  by (auto simp: gk20a_deinit_cde_img_def slot_torn_down_def)

lemma cde_remove_torn_down:
  "gk20a_cde_remove g ctx tr = (ctx', tr') \<Longrightarrow> slot_torn_down ctx'"
  by (auto simp: gk20a_cde_remove_def split: prod.splits dest: deinit_cde_img_torn_down)

lemma init_cde_img_failure_torn_down:
  "gk20a_init_cde_img cfg env img ctx tr = (Failure e, ctx', tr') \<Longrightarrow>
   slot_torn_down ctx \<Longrightarrow> slot_torn_down ctx'"
  by (auto simp: gk20a_init_cde_img_def split: if_splits prod.splits status.splits
      dest: deinit_cde_img_torn_down)

lemma slot_torn_down_channel:
  "slot_torn_down ctx \<Longrightarrow> slot_torn_down (ctx\<lparr>ch := c, vm := v, backing_store_vaddr := a\<rparr>)"
  by (simp add: slot_torn_down_def)

lemma cde_load_failure_torn_down:
  "gk20a_cde_load cfg env g ctx tr = (Failure e, ctx', tr') \<Longrightarrow>
   slot_torn_down ctx \<Longrightarrow> slot_torn_down ctx'"
  by (auto simp: gk20a_cde_load_def Let_def
      split: option.splits if_splits prod.splits status.splits
      dest!: init_cde_img_failure_torn_down [OF _ slot_torn_down_channel])

lemma reload_slot_failure:
  assumes "reload_slot cfg env g i (e0, app, tr) = (Failure e, app', tr')"
  shows "slot_torn_down (cde_ctx app' i)"
proof -
  obtain ctx1 tr1 where r: "gk20a_cde_remove g (cde_ctx app i) tr = (ctx1, tr1)"
    by (cases "gk20a_cde_remove g (cde_ctx app i) tr")
  obtain e2 ctx2 tr2 where l: "gk20a_cde_load cfg env g ctx1 tr1 = (e2, ctx2, tr2)"
    by (metis prod_cases3)
  from assms r l have "e2 = Failure e" and "cde_ctx app' i = ctx2"
    by (auto simp: reload_slot_def remove_slot_def load_slot_def)
  with cde_load_failure_torn_down [OF _ cde_remove_torn_down [OF r]] l show ?thesis by simp
qed

lemma reload_slot_others:
  "reload_slot cfg env g i (e0, app, tr) = (e, app', tr') \<Longrightarrow>
   same_pool app app' \<and> (\<forall>j. j \<noteq> i \<longrightarrow> cde_ctx app' j = cde_ctx app j)"
  by (auto simp: reload_slot_def remove_slot_def load_slot_def same_pool_def split: prod.splits)

lemma fold_reload_slot_others:
  "fold (reload_slot cfg env g) is (e0, app, tr) = (e, app', tr') \<Longrightarrow>
   same_pool app app' \<and> (\<forall>j. j \<notin> set is \<longrightarrow> cde_ctx app' j = cde_ctx app j)"
proof (induction "is" arbitrary: e0 app tr)
  case Nil
  then show ?case by (simp add: same_pool_def)
next
  case (Cons i "is")
  obtain e1 app1 tr1 where r: "reload_slot cfg env g i (e0, app, tr) = (e1, app1, tr1)"
    by (metis prod_cases3)
  with Cons.prems have "fold (reload_slot cfg env g) is (e1, app1, tr1) = (e, app', tr')"
    by simp
  from Cons.IH [OF this] reload_slot_others [OF r] show ?case
    by (auto simp: same_pool_def)
qed

lemma slot_torn_down_not_loaded: "slot_torn_down ctx \<Longrightarrow> \<not> slot_loaded ctx"
  by (simp add: slot_torn_down_def slot_loaded_def)

lemma initialised_app_loaded:
  "initialised initialised_app \<and> cde_ctx_ptr initialised_app = 0 \<and>
   slot_loaded (cde_ctx initialised_app 0)"
  by (simp add: initialised_app_def gk20a_init_cde_support_def env_good_def slot_loaded_def
      pool_eval sample_eval)

text \<open>
  Claim C5 on the code. When the load of slot \<open>0\<close> fails during the reload of an
  initialised pool,
  \<open>gk20a_cde_reload\<close> leaves the pool marked initialised and resets the round-robin
  pointer to \<open>0\<close>: the pointer is then at a slot that has been torn down and has not been
  loaded again. In the same situation \<open>gk20a_init_cde_support\<close> leaves the pool
  unmarked.
\<close>

theorem reload_failure_pointer_at_torn_down_slot:
  assumes "initialised app" and "0 < NUM_CDE_CTX cfg"
    and "fst (reload_slot cfg env g 0 (e_uninitialised env, app, tr @ [Busy, Mutex_lock]))
           = Failure e"
  shows "initialised (fst (snd (gk20a_cde_reload cfg env g app tr))) \<and>
         cde_ctx_ptr (fst (snd (gk20a_cde_reload cfg env g app tr))) = 0 \<and>
         slot_torn_down (cde_ctx (fst (snd (gk20a_cde_reload cfg env g app tr)))
                           (cde_ctx_ptr (fst (snd (gk20a_cde_reload cfg env g app tr))))) \<and>
         \<not> slot_loaded (cde_ctx (fst (snd (gk20a_cde_reload cfg env g app tr)))
                           (cde_ctx_ptr (fst (snd (gk20a_cde_reload cfg env g app tr)))))"
proof -
  let ?s0 = "(e_uninitialised env, app, tr @ [Busy, Mutex_lock])"
  from assms(3) obtain app1 tr1 where
    r: "reload_slot cfg env g 0 ?s0 = (Failure e, app1, tr1)"
    by (metis prod.collapse)
  obtain e2 app2 tr2 where
    f: "fold (reload_slot cfg env g) [1..<NUM_CDE_CTX cfg] (Failure e, app1, tr1)
          = (e2, app2, tr2)"
    by (metis prod_cases3)
  from assms(2) have u: "[0..<NUM_CDE_CTX cfg] = 0 # [1..<NUM_CDE_CTX cfg]"
    by (simp add: upt_rec)
  from r f have w: "fold (reload_slot cfg env g) [0..<NUM_CDE_CTX cfg] ?s0 = (e2, app2, tr2)"
    unfolding u by simp
  from reload_slot_failure [OF r] have t1: "slot_torn_down (cde_ctx app1 0)" .
  from fold_reload_slot_others [OF f] have "cde_ctx app2 0 = cde_ctx app1 0"
    and s2: "same_pool app1 app2" by auto
  with t1 have t2: "slot_torn_down (cde_ctx app2 0)" by simp
  from reload_slot_others [OF r] s2 assms(1) have i2: "initialised app2"
    by (simp add: same_pool_def)
  from w assms(1) have
    "fst (snd (gk20a_cde_reload cfg env g app tr)) = app2\<lparr>cde_ctx_ptr := 0\<rparr>"
    by (simp add: gk20a_cde_reload_def)
  with t2 i2 slot_torn_down_not_loaded [OF t2] show ?thesis by simp
qed

theorem reload_failure_pointer_at_torn_down_slot_witness:
  "initialised initialised_app \<and> 0 < NUM_CDE_CTX sample_config \<and>
   slot_loaded (cde_ctx initialised_app (cde_ctx_ptr initialised_app)) \<and>
   fst (reload_slot sample_config env_timedout sample_gr 0
          (e_uninitialised env_timedout, initialised_app, [] @ [Busy, Mutex_lock]))
     = Failure ENOSYS \<and>
   initialised (fst (snd (gk20a_cde_reload sample_config env_timedout sample_gr
                            initialised_app []))) \<and>
   cde_ctx_ptr (fst (snd (gk20a_cde_reload sample_config env_timedout sample_gr
                            initialised_app []))) = 0 \<and>
   \<not> slot_loaded (cde_ctx (fst (snd (gk20a_cde_reload sample_config env_timedout sample_gr
                                       initialised_app []))) 0)"
proof -
  have a: "initialised initialised_app" using initialised_app_loaded by simp
  have b: "0 < NUM_CDE_CTX sample_config" by (simp add: sample_config_def)
  have l: "slot_loaded (cde_ctx initialised_app (cde_ctx_ptr initialised_app))"
    using initialised_app_loaded by simp
  have c: "fst (reload_slot sample_config env_timedout sample_gr 0
          (e_uninitialised env_timedout, initialised_app, [] @ [Busy, Mutex_lock]))
     = Failure ENOSYS"
    by (simp add: pool_eval env_timedout_def env_ok_def Let_def split: prod.splits)
  from reload_failure_pointer_at_torn_down_slot [OF a b c] a b l c show ?thesis by auto
qed

lemma cde_load_map_failure:
  assumes "e_request_firmware env (length tr) = Some img"
    and "e_open_new_channel env (Suc (length tr)) = c" and "c \<noteq> 0"
    and "e_commit_va env (length tr + 3) = Success"
    and "e_alloc_channel_gpfifo env (length tr + 4) = Success"
    and "e_gmmu_map env (length tr + 5) = 0"
  shows "gk20a_cde_load cfg env g ctx tr
         = (Success, ctx,
            tr @ [Request_firmware, Open_new_channel, Vm_get (pmu_vm g), Commit_va c,
                  Alloc_channel_gpfifo c,
                  Gmmu_map (compbit_store_sgt g) (compbit_store_size g),
                  Vm_put (pmu_vm g), Release_firmware])"
  using assms by (simp add: gk20a_cde_load_def Let_def eval_nat_numeral)

lemma init_loop_map_failure:
  assumes "\<forall>t. e_request_firmware env t \<noteq> None"
    and "\<forall>t. e_open_new_channel env t \<noteq> 0"
    and "\<forall>t. e_commit_va env t = Success"
    and "\<forall>t. e_alloc_channel_gpfifo env t = Success"
    and "\<forall>t. e_gmmu_map env t = 0"
  shows "\<exists>tr'. init_loop cfg env g is app tr = ((Success, NUM_CDE_CTX cfg), app, tr') \<and>
               length tr' = length tr + 8 * length is"
proof (induction "is" arbitrary: tr)
  case Nil
  show ?case by simp
next
  case (Cons i "is")
  from assms(1) obtain img where i: "e_request_firmware env (length tr) = Some img" by auto
  from assms(2) have c: "e_open_new_channel env (Suc (length tr)) \<noteq> 0" by simp
  note l = cde_load_map_failure [where cfg = cfg and g = g and ctx = "cde_ctx app i",
             OF i refl c]
  let ?tr1 = "tr @ [Request_firmware, Open_new_channel, Vm_get (pmu_vm g),
                    Commit_va (e_open_new_channel env (Suc (length tr))),
                    Alloc_channel_gpfifo (e_open_new_channel env (Suc (length tr))),
                    Gmmu_map (compbit_store_sgt g) (compbit_store_size g),
                    Vm_put (pmu_vm g), Release_firmware]"
  from l assms(3-5) have "load_slot cfg env g i app tr = (Success, app, ?tr1)"
    by (simp add: load_slot_def)
  with Cons.IH [of ?tr1] show ?case by auto
qed

text \<open>
  When the mapping of the backing store fails, \<open>gk20a_cde_load\<close> jumps to
  \<open>err_map_backingstore\<close> with \<open>err\<close> still \<open>0\<close> from the allocation of the gpfifo: it
  returns \<open>0\<close> and the context has not been given the channel. An initialisation in which
  every mapping fails so returns \<open>0\<close> and marks the pool initialised, with every slot as
  it was before.
\<close>

lemma init_map_failure_reports_initialised:
  assumes "\<not> initialised app"
    and "\<forall>t. e_request_firmware env t \<noteq> None"
    and "\<forall>t. e_open_new_channel env t \<noteq> 0"
    and "\<forall>t. e_commit_va env t = Success"
    and "\<forall>t. e_alloc_channel_gpfifo env t = Success"
    and "\<forall>t. e_gmmu_map env t = 0"
  shows "\<exists>tr'. gk20a_init_cde_support cfg env g app tr
           = (Success,
              app\<lparr>app_vm := vm (cde_ctx app 0), cde_ctx_ptr := 0, initialised := True\<rparr>,
              tr') \<and>
           length tr' = length tr + 3 + 8 * NUM_CDE_CTX cfg"
  using init_loop_map_failure [OF assms(2-6), of cfg g "[0..<NUM_CDE_CTX cfg]" app
          "tr @ [Mutex_init, Mutex_lock]"] assms(1)
  by (auto simp: gk20a_init_cde_support_def)

lemma init_map_failure_sample:
  "fst (gk20a_init_cde_support sample_config env_map_fails sample_gr zero_app []) = Success \<and>
   initialised (fst (snd (gk20a_init_cde_support sample_config env_map_fails sample_gr
                            zero_app []))) \<and>
   cde_ctx_ptr (fst (snd (gk20a_init_cde_support sample_config env_map_fails sample_gr
                            zero_app []))) = 0 \<and>
   ch (cde_ctx (fst (snd (gk20a_init_cde_support sample_config env_map_fails sample_gr
                            zero_app []))) 0) = 0 \<and>
   \<not> slot_loaded (cde_ctx (fst (snd (gk20a_init_cde_support sample_config env_map_fails
                                       sample_gr zero_app []))) 0) \<and>
   snd (snd (gk20a_init_cde_support sample_config env_map_fails sample_gr zero_app []))
     = [Mutex_init, Mutex_lock, Request_firmware, Open_new_channel, Vm_get 9, Commit_va 3,
        Alloc_channel_gpfifo 3, Gmmu_map 7 0x10000, Vm_put 9, Release_firmware,
        Mutex_unlock]"
  by (simp add: gk20a_init_cde_support_def env_map_fails_def slot_loaded_def
      pool_eval sample_eval)

text \<open>
  When a handler of an element fails, the parser tears the context down and returns \<open>0\<close>.
\<close>

lemma init_cde_img_handler_failure:
  assumes "header_fits img" and "elems_fit cfg img"
    and "init_cde_elems cfg env img (fw_elems img) ctx tr = (Failure e, ctx1, tr1)"
  shows "gk20a_init_cde_img cfg env img ctx tr
         = (Success, fst (gk20a_deinit_cde_img ctx1 tr1), snd (gk20a_deinit_cde_img ctx1 tr1))"
  using assms by (simp add: gk20a_init_cde_img_def split: prod.splits)

text \<open>
  The part of the pool invariant that holds: once the pool is marked initialised, the
  round-robin pointer is the index of a slot, whatever the kernel answers.
\<close>

lemma load_slot_same_pool:
  "load_slot cfg env g i app tr = (err, app', tr') \<Longrightarrow> same_pool app app'"
  by (auto simp: load_slot_def same_pool_def split: prod.splits)

lemma remove_slot_same_pool:
  "remove_slot g i (app, tr) = (app', tr') \<Longrightarrow> same_pool app app'"
  by (auto simp: remove_slot_def same_pool_def split: prod.splits)

lemma fold_remove_slot_same_pool:
  "fold (remove_slot g) is (app, tr) = (app', tr') \<Longrightarrow> same_pool app app'"
proof (induction "is" arbitrary: app tr)
  case Nil
  then show ?case by (simp add: same_pool_def)
next
  case (Cons i "is")
  obtain app1 tr1 where r: "remove_slot g i (app, tr) = (app1, tr1)"
    by (cases "remove_slot g i (app, tr)")
  with Cons.prems have "fold (remove_slot g) is (app1, tr1) = (app', tr')" by simp
  from Cons.IH [OF this] remove_slot_same_pool [OF r] show ?case
    by (simp add: same_pool_def)
qed

lemma init_loop_same_pool:
  "init_loop cfg env g is app tr = (r, app', tr') \<Longrightarrow> same_pool app app'"
proof (induction "is" arbitrary: app tr)
  case Nil
  then show ?case by (simp add: same_pool_def)
next
  case (Cons i "is")
  obtain e1 app1 tr1 where l: "load_slot cfg env g i app tr = (e1, app1, tr1)"
    by (metis prod_cases3)
  note s1 = load_slot_same_pool [OF l]
  show ?case
  proof (cases e1)
    case Success
    with l Cons.prems have "init_loop cfg env g is app1 tr1 = (r, app', tr')" by simp
    from Cons.IH [OF this] s1 show ?thesis by (simp add: same_pool_def)
  next
    case (Failure e)
    with l Cons.prems s1 show ?thesis by auto
  qed
qed

lemma init_cde_support_pointer_in_range:
  assumes n: "0 < NUM_CDE_CTX cfg" and p: "pointer_in_range cfg app"
  shows "pointer_in_range cfg (fst (snd (gk20a_init_cde_support cfg env g app tr)))"
proof (cases "initialised app")
  case True
  with p show ?thesis by (simp add: gk20a_init_cde_support_def)
next
  case False
  obtain err k app1 tr1 where
    l: "init_loop cfg env g [0..<NUM_CDE_CTX cfg] app (tr @ [Mutex_init, Mutex_lock])
          = ((err, k), app1, tr1)"
    by (metis prod_cases3 surj_pair)
  note s = init_loop_same_pool [OF l]
  show ?thesis
  proof (cases err)
    case Success
    with l False n show ?thesis
      by (simp add: gk20a_init_cde_support_def pointer_in_range_def)
  next
    case (Failure e)
    obtain app2 tr2 where f: "fold (remove_slot g) (rev [1..<Suc k]) (app1, tr1) = (app2, tr2)"
      by (cases "fold (remove_slot g) (rev [1..<Suc k]) (app1, tr1)")
    from fold_remove_slot_same_pool [OF f] s False have "\<not> initialised app2"
      by (simp add: same_pool_def)
    with l f Failure False show ?thesis
      by (simp add: gk20a_init_cde_support_def pointer_in_range_def)
  qed
qed

lemma cde_reload_pointer_in_range:
  assumes n: "0 < NUM_CDE_CTX cfg" and p: "pointer_in_range cfg app"
  shows "pointer_in_range cfg (fst (snd (gk20a_cde_reload cfg env g app tr)))"
proof (cases "initialised app")
  case False
  with init_cde_support_pointer_in_range [OF n p, of env g "tr @ [Busy]"] show ?thesis
    by (auto simp: gk20a_cde_reload_def split: prod.splits)
next
  case True
  obtain err1 app1 tr1 where
    f: "fold (reload_slot cfg env g) [0..<NUM_CDE_CTX cfg]
          (e_uninitialised env, app, tr @ [Busy, Mutex_lock]) = (err1, app1, tr1)"
    by (metis prod_cases3)
  from n have "pointer_in_range cfg (app1\<lparr>cde_ctx_ptr := 0\<rparr>)"
    by (simp add: pointer_in_range_def)
  with True f show ?thesis by (simp add: gk20a_cde_reload_def)
qed

lemma exit_unlock_app: "fst (snd (snd (exit_unlock err f d s app tr))) = app"
  by (simp add: exit_unlock_def)

lemma convert_submit_same_pool:
  "same_pool app (fst (snd (snd (convert_submit cfg env g i src dva sva off sz f fl ps app tr))))"
  by (auto simp: convert_submit_def Let_def exit_unlock_app same_pool_def
      split: prod.splits status.splits)

lemma cde_convert_pointer_in_range:
  assumes n: "0 < NUM_CDE_CTX cfg" and p: "pointer_in_range cfg app"
  shows "pointer_in_range cfg
           (fst (snd (snd (gk20a_cde_convert cfg env g src dst off sz f fl ps app tr))))"
proof (cases "initialised app")
  case False
  with p show ?thesis by (simp add: gk20a_cde_convert_def)
next
  case True
  define app1 where "app1 = app\<lparr>cde_ctx_ptr := (cde_ctx_ptr app + 1) mod NUM_CDE_CTX cfg\<rparr>"
  from n have p1: "pointer_in_range cfg app1"
    by (simp add: app1_def pointer_in_range_def)
  have s: "pointer_in_range cfg
             (fst (snd (snd (convert_submit cfg env g k src d v off z f fl ps a t))))"
    if "pointer_in_range cfg a" for k d v z a t
    using convert_submit_same_pool [of a cfg env g k src d v off z f fl ps t] that
    by (simp add: same_pool_def pointer_in_range_def)
  have r: "pointer_in_range cfg a" if "gk20a_cde_reload cfg env g app1 t = (e, a, t')"
    for t e a t'
    using cde_reload_pointer_in_range [OF n p1, of env g t] that by simp
  from True show ?thesis
    unfolding gk20a_cde_convert_def Let_def app1_def [symmetric]
    by (auto simp: exit_unlock_app p1 s split: prod.splits status.splits dest: r)
qed

lemma cde_destroy_pointer_in_range:
  "pointer_in_range cfg (fst (snd (gk20a_cde_destroy cfg env g app tr)))"
  by (auto simp: gk20a_cde_destroy_def pointer_in_range_def split: prod.splits)

section \<open>Conversion\<close>

text \<open>
  The failure paths that reach \<open>exit_unlock\<close>: with the destination mapped and the
  source not, the destination is unmapped and the mutex released once; with both mapped
  and no failing reload, the record of calls ends with both unmappings and the release of
  the mutex.
\<close>

lemma exit_unlock_trace:
  "dva \<noteq> 0 \<Longrightarrow> sva \<noteq> 0 \<Longrightarrow>
   snd (snd (snd (exit_unlock err f dva sva app tr)))
     = tr @ [Vm_unmap dva, Vm_unmap sva, Mutex_unlock]"
  by (simp add: exit_unlock_def)

lemma param_new_data_trace:
  "param_new_data cfg env g ctx param err tr = Some (d, err1, tr1) \<Longrightarrow>
   \<exists>ext. tr1 = tr @ ext \<and> set ext \<subseteq> range Gpuva_to_iova"
  by (cases "param_id_of cfg (par_id param)")
     (auto simp: param_new_data_def Let_def split: if_splits)

lemma patch_params_loop_trace:
  "\<exists>ext. snd (snd (patch_params_loop cfg env g ps err ctx tr)) = tr @ ext \<and>
         set ext \<subseteq> range Gpuva_to_iova"
proof (induction ps arbitrary: err ctx tr)
  case Nil
  show ?case by simp
next
  case (Cons param ps)
  show ?case
  proof (cases "param_new_data cfg env g ctx param err tr")
    case None
    with Cons.IH [of err ctx tr] show ?thesis by simp
  next
    case (Some x)
    obtain d err1 tr1 where x: "x = (d, err1, tr1)" by (cases x)
    from param_new_data_trace [OF Some [unfolded x]] obtain e1 where
      e1: "tr1 = tr @ e1" "set e1 \<subseteq> range Gpuva_to_iova" by blast
    obtain r ctx' where p: "patch_mem ctx (unat (par_target_buf param))
        (par_target_byte_offset param) (par_type param) (par_shift param) (par_mask param)
        (d + par_data_offset param) = (r, ctx')"
      by (cases "patch_mem ctx (unat (par_target_buf param))
        (par_target_byte_offset param) (par_type param) (par_shift param) (par_mask param)
        (d + par_data_offset param)")
    show ?thesis
    proof (cases r)
      case Success
      from Cons.IH [of "Some Success" ctx' tr1] obtain e2 where
        "snd (snd (patch_params_loop cfg env g ps (Some Success) ctx' tr1)) = tr1 @ e2"
        "set e2 \<subseteq> range Gpuva_to_iova" by blast
      with Some x p Success e1 show ?thesis
        by (intro exI [of _ "e1 @ e2"]) simp
    next
      case (Failure e)
      with Some x p e1 show ?thesis by simp
    qed
  qed
qed

lemma patch_params_trace:
  "\<exists>ext. snd (snd (gk20a_cde_patch_params cfg env g ctx tr)) = tr @ ext \<and>
         set ext \<subseteq> range Gpuva_to_iova"
  unfolding gk20a_cde_patch_params_def by (rule patch_params_loop_trace)

lemma execute_buffer_trace:
  "\<exists>ext. snd (snd (gk20a_cde_execute_buffer env op fence flags ctx tr)) = tr @ ext \<and>
         Mutex_unlock \<notin> set ext \<and> Mutex_lock \<notin> set ext \<and> (\<forall>v. Vm_unmap v \<notin> set ext)"
  by (cases op) (auto simp: gk20a_cde_execute_buffer_def split: prod.splits)


lemma convert_submit_unmaps:
  assumes d: "dva \<noteq> 0" and s: "sva \<noteq> 0"
  shows "\<exists>ext. snd (snd (snd (convert_submit cfg env g i src dva sva off sz f fl ps app tr)))
           = tr @ ext @ [Vm_unmap dva, Vm_unmap sva, Mutex_unlock] \<and>
         Mutex_unlock \<notin> set ext \<and> Mutex_lock \<notin> set ext \<and> (\<forall>v. Vm_unmap v \<notin> set ext)"
proof -
  define c where "c = ch (cde_ctx app i)"
  define tr3 where "tr3 = tr @ Channel_finish c # reset_channel c @ [Get_comptags (db_id src)]"
  obtain co cl where g: "e_get_comptags env (Suc (length tr + length (reset_channel c))) = (co, cl)"
    by (cases "e_get_comptags env (Suc (length tr + length (reset_channel c)))")
  define ctx1 where "ctx1 = (cde_ctx app i)\<lparr>src_vaddr := sva, src_param_offset := co,
      src_param_lines := cl, dest_vaddr := dva + off, dest_size := ucast sz\<rparr>"
  obtain r1 vals where u: "read_user_params cfg ps (\<lambda>k. 0) = (r1, vals)"
    by (cases "read_user_params cfg ps (\<lambda>k. 0)")
  obtain r2 ctx2 tr4 where
    p: "gk20a_cde_patch_params cfg env g (ctx1\<lparr>user_param_values := vals\<rparr>) tr3 = (r2, ctx2, tr4)"
    by (metis prod_cases3)
  from patch_params_trace [of cfg env g "ctx1\<lparr>user_param_values := vals\<rparr>" tr3] p
  obtain e4 where e4: "tr4 = tr3 @ e4" "set e4 \<subseteq> range Gpuva_to_iova"
    by auto
  obtain r3 f3 tr5 where
    x: "gk20a_cde_execute_buffer env TYPE_BUF_COMMAND_INIT 0 0 ctx2 tr4 = (r3, f3, tr5)"
    by (metis prod_cases3)
  from execute_buffer_trace [of env TYPE_BUF_COMMAND_INIT 0 0 ctx2 tr4] x
  obtain e5 where e5: "tr5 = tr4 @ e5" "Mutex_unlock \<notin> set e5" "Mutex_lock \<notin> set e5"
    "\<forall>v. Vm_unmap v \<notin> set e5" by auto
  obtain r4 f4 tr6 where
    y: "gk20a_cde_execute_buffer env TYPE_BUF_COMMAND_CONVERT f
          (fl OR NVHOST_SUBMIT_GPFIFO_FLAGS_FENCE_GET cfg) ctx2 tr5 = (r4, f4, tr6)"
    by (metis prod_cases3)
  from execute_buffer_trace [of env TYPE_BUF_COMMAND_CONVERT f
      "fl OR NVHOST_SUBMIT_GPFIFO_FLAGS_FENCE_GET cfg" ctx2 tr5] y
  obtain e6 where e6: "tr6 = tr5 @ e6" "Mutex_unlock \<notin> set e6" "Mutex_lock \<notin> set e6"
    "\<forall>v. Vm_unmap v \<notin> set e6" by auto
  have t3: "Mutex_unlock \<notin> set (Channel_finish c # reset_channel c @ [Get_comptags (db_id src)])"
    "Mutex_lock \<notin> set (Channel_finish c # reset_channel c @ [Get_comptags (db_id src)])"
    "\<forall>v. Vm_unmap v \<notin> set (Channel_finish c # reset_channel c @ [Get_comptags (db_id src)])"
    by (simp_all add: reset_channel_def)
  have e4': "Mutex_unlock \<notin> set e4" "Mutex_lock \<notin> set e4" "\<forall>v. Vm_unmap v \<notin> set e4"
    using e4(2) by auto
  show ?thesis
  proof (cases "e_channel_finish env (length tr) = Success")
    case False
    with d s show ?thesis
      by (intro exI [of _ "[Channel_finish c]"])
         (simp add: convert_submit_def Let_def exit_unlock_def c_def)
  next
    case cf: True
    show ?thesis
    proof (cases r1)
      case (Failure e)
      with cf u g d s t3 show ?thesis
        by (intro exI [of _ "Channel_finish c # reset_channel c @ [Get_comptags (db_id src)]"])
           (simp add: convert_submit_def Let_def exit_unlock_def c_def)
    next
      case u1: Success
      show ?thesis
      proof (cases r2)
        case (Failure e)
        with cf u u1 g p e4 e4' d s t3 show ?thesis
          by (intro exI [of _ "Channel_finish c # reset_channel c @ [Get_comptags (db_id src)] @ e4"])
             (simp add: convert_submit_def Let_def exit_unlock_def c_def [symmetric]
               ctx1_def [symmetric] tr3_def)
      next
        case p1: Success
        show ?thesis
        proof (cases r3)
          case (Failure e)
          with cf u u1 g p p1 x e4 e4' e5 d s t3 show ?thesis
            by (intro exI [of _ "Channel_finish c # reset_channel c @ [Get_comptags (db_id src)] @ e4 @ e5"])
               (simp add: convert_submit_def Let_def exit_unlock_def c_def [symmetric]
                 ctx1_def [symmetric] tr3_def)
        next
          case x1: Success
          with cf u u1 g p p1 x y e4 e4' e5 e6 d s t3 show ?thesis
            by (intro exI [of _ "Channel_finish c # reset_channel c @ [Get_comptags (db_id src)] @ e4 @ e5 @ e6"])
               (simp add: convert_submit_def Let_def exit_unlock_def c_def [symmetric]
                 ctx1_def [symmetric] tr3_def)
        qed
      qed
    qed
  qed
qed


lemma convert_src_failure_unmaps_dst:
  assumes "initialised app"
    and "e_dmabuf_alloc_drvdata env (length tr + 1) = Success"
    and "e_vm_map env (length tr + 3) = dva" and "dva \<noteq> 0"
    and "e_dmabuf_alloc_drvdata env (length tr + 4) \<noteq> Success
         \<or> e_vm_map env (length tr + 6) = 0"
  shows "\<exists>e ext. fst (gk20a_cde_convert cfg env g src dst off sz f fl ps app tr) = Failure e \<and>
           snd (snd (snd (gk20a_cde_convert cfg env g src dst off sz f fl ps app tr)))
             = tr @ Mutex_lock # ext @ [Vm_unmap dva, Mutex_unlock] \<and>
           Mutex_unlock \<notin> set ext \<and> Mutex_lock \<notin> set ext"
proof (cases "e_dmabuf_alloc_drvdata env (length tr + 4)")
  case Success
  with assms show ?thesis
    by (intro exI [of _ EINVAL]
          exI [of _ "[Dmabuf_alloc_drvdata (db_id dst), Get_dma_buf (db_id dst),
                      Vm_map (db_id dst), Dmabuf_alloc_drvdata (db_id src),
                      Get_dma_buf (db_id src), Vm_map (db_id src), Dma_buf_put (db_id src)]"])
       (simp add: gk20a_cde_convert_def Let_def exit_unlock_def eval_nat_numeral)
next
  case (Failure e)
  with assms show ?thesis
    by (intro exI [of _ e]
          exI [of _ "[Dmabuf_alloc_drvdata (db_id dst), Get_dma_buf (db_id dst),
                      Vm_map (db_id dst), Dmabuf_alloc_drvdata (db_id src)]"])
       (simp add: gk20a_cde_convert_def Let_def exit_unlock_def eval_nat_numeral)
qed

lemma convert_unmaps_unless_reload_fails:
  assumes "initialised app"
    and "e_dmabuf_alloc_drvdata env (length tr + 1) = Success"
    and "e_vm_map env (length tr + 3) = dva" and "dva \<noteq> 0"
    and "e_dmabuf_alloc_drvdata env (length tr + 4) = Success"
    and "e_vm_map env (length tr + 6) = sva" and "sva \<noteq> 0"
    and "e_has_timedout env (length tr + 7) \<longrightarrow>
         fst (gk20a_cde_reload cfg env g
                (app\<lparr>cde_ctx_ptr := (cde_ctx_ptr app + 1) mod NUM_CDE_CTX cfg\<rparr>)
                (tr @ [Mutex_lock, Dmabuf_alloc_drvdata (db_id dst), Get_dma_buf (db_id dst),
                       Vm_map (db_id dst), Dmabuf_alloc_drvdata (db_id src),
                       Get_dma_buf (db_id src), Vm_map (db_id src), Mutex_unlock])) = Success"
  shows "\<exists>pre. snd (snd (snd (gk20a_cde_convert cfg env g src dst off sz f fl ps app tr)))
           = pre @ [Vm_unmap dva, Vm_unmap sva, Mutex_unlock]"
proof (cases "e_has_timedout env (length tr + 7)")
  case False
  let ?pre = "tr @ [Mutex_lock, Dmabuf_alloc_drvdata (db_id dst), Get_dma_buf (db_id dst),
                    Vm_map (db_id dst), Dmabuf_alloc_drvdata (db_id src),
                    Get_dma_buf (db_id src), Vm_map (db_id src)]"
  from convert_submit_unmaps [OF assms(4) assms(7), of cfg env g "cde_ctx_ptr app" src off
      "if sz = 0 then ucast (db_size dst - off) else sz" f fl ps
      "app\<lparr>cde_ctx_ptr := (cde_ctx_ptr app + 1) mod NUM_CDE_CTX cfg\<rparr>" ?pre]
  obtain ext where
    "snd (snd (snd (convert_submit cfg env g (cde_ctx_ptr app) src dva sva off
        (if sz = 0 then ucast (db_size dst - off) else sz) f fl ps
        (app\<lparr>cde_ctx_ptr := (cde_ctx_ptr app + 1) mod NUM_CDE_CTX cfg\<rparr>) ?pre)))
      = ?pre @ ext @ [Vm_unmap dva, Vm_unmap sva, Mutex_unlock]" by blast
  with False assms(1-7) show ?thesis
    by (intro exI [of _ "?pre @ ext"])
       (simp add: gk20a_cde_convert_def Let_def eval_nat_numeral)
next
  case True
  let ?pre = "tr @ [Mutex_lock, Dmabuf_alloc_drvdata (db_id dst), Get_dma_buf (db_id dst),
                    Vm_map (db_id dst), Dmabuf_alloc_drvdata (db_id src),
                    Get_dma_buf (db_id src), Vm_map (db_id src), Mutex_unlock]"
  obtain app' tr8 where
    r: "gk20a_cde_reload cfg env g
          (app\<lparr>cde_ctx_ptr := (cde_ctx_ptr app + 1) mod NUM_CDE_CTX cfg\<rparr>) ?pre
        = (Success, app', tr8)"
    using True assms(8) by (metis prod.collapse)
  from convert_submit_unmaps [OF assms(4) assms(7), of cfg env g "cde_ctx_ptr app" src off
      "if sz = 0 then ucast (db_size dst - off) else sz" f fl ps app' "tr8 @ [Mutex_lock]"]
  obtain ext where
    "snd (snd (snd (convert_submit cfg env g (cde_ctx_ptr app) src dva sva off
        (if sz = 0 then ucast (db_size dst - off) else sz) f fl ps app' (tr8 @ [Mutex_lock]))))
      = (tr8 @ [Mutex_lock]) @ ext @ [Vm_unmap dva, Vm_unmap sva, Mutex_unlock]" by blast
  with True assms(1-7) r show ?thesis
    by (intro exI [of _ "(tr8 @ [Mutex_lock]) @ ext"])
       (simp add: gk20a_cde_convert_def Let_def eval_nat_numeral)
qed

text \<open>
  Claim C1 on the code. With both buffers mapped and the channel of the selected context
  timed out, \<open>gk20a_cde_convert\<close> releases the pool mutex and calls
  \<open>gk20a_cde_reload\<close>; if that fails, it returns the error at once. What it has done is
  what the reload has left: the mutex was released once, by the \<open>mutex_unlock\<close> before
  the reload, and neither buffer is unmapped. The run below shows the whole record of
  calls: two \<open>Vm_map\<close> and no \<open>Vm_unmap\<close>.
\<close>

theorem convert_reload_failure_keeps_mappings:
  assumes "initialised app"
    and "e_dmabuf_alloc_drvdata env (length tr + 1) = Success"
    and "e_vm_map env (length tr + 3) = dva" and "dva \<noteq> 0"
    and "e_dmabuf_alloc_drvdata env (length tr + 4) = Success"
    and "e_vm_map env (length tr + 6) = sva" and "sva \<noteq> 0"
    and "e_has_timedout env (length tr + 7)"
    and "gk20a_cde_reload cfg env g
           (app\<lparr>cde_ctx_ptr := (cde_ctx_ptr app + 1) mod NUM_CDE_CTX cfg\<rparr>)
           (tr @ [Mutex_lock, Dmabuf_alloc_drvdata (db_id dst), Get_dma_buf (db_id dst),
                  Vm_map (db_id dst), Dmabuf_alloc_drvdata (db_id src), Get_dma_buf (db_id src),
                  Vm_map (db_id src), Mutex_unlock])
           = (Failure e, app', tr')"
  shows "gk20a_cde_convert cfg env g src dst dst_byte_offset dst_size fence flags ps app tr
           = (Failure e, 0, app', tr')"
  using assms
  by (simp add: gk20a_cde_convert_def Let_def eval_nat_numeral)

theorem convert_reload_failure_keeps_mappings_witness:
  "initialised (zero_app\<lparr>initialised := True\<rparr>) \<and>
   fst (gk20a_cde_convert sample_config env_timedout sample_gr sample_src sample_dst 0 0 0 0 []
          (zero_app\<lparr>initialised := True\<rparr>) []) = Failure ENOSYS \<and>
   snd (snd (snd (gk20a_cde_convert sample_config env_timedout sample_gr sample_src sample_dst
                    0 0 0 0 [] (zero_app\<lparr>initialised := True\<rparr>) [])))
     = [Mutex_lock, Dmabuf_alloc_drvdata 2, Get_dma_buf 2, Vm_map 2,
        Dmabuf_alloc_drvdata 1, Get_dma_buf 1, Vm_map 1, Mutex_unlock,
        Busy, Mutex_lock, Free_channel 0, Kfree 0, Kfree 0, Gmmu_unmap 0 0x10000,
        Request_firmware, Mutex_unlock, Idle]"
proof -
  let ?app = "zero_app\<lparr>initialised := True\<rparr>"
  let ?tr = "[] :: event list"
  have a: "initialised ?app" by simp
  have b: "e_dmabuf_alloc_drvdata env_timedout (length ?tr + 1) = Success"
    by (simp add: env_timedout_def env_ok_def)
  have c: "e_vm_map env_timedout (length ?tr + 3) = 0x400000"
    by (simp add: env_timedout_def env_ok_def)
  have d: "e_dmabuf_alloc_drvdata env_timedout (length ?tr + 4) = Success"
    by (simp add: env_timedout_def env_ok_def)
  have e: "e_vm_map env_timedout (length ?tr + 6) = 0x400000"
    by (simp add: env_timedout_def env_ok_def)
  have f: "e_has_timedout env_timedout (length ?tr + 7)"
    by (simp add: env_timedout_def)
  have z: "(0x400000 :: u64) \<noteq> 0" by simp
  let ?r = "gk20a_cde_reload sample_config env_timedout sample_gr
           (?app\<lparr>cde_ctx_ptr := (cde_ctx_ptr ?app + 1) mod NUM_CDE_CTX sample_config\<rparr>)
           (?tr @ [Mutex_lock, Dmabuf_alloc_drvdata (db_id sample_dst), Get_dma_buf (db_id sample_dst),
                  Vm_map (db_id sample_dst), Dmabuf_alloc_drvdata (db_id sample_src),
                  Get_dma_buf (db_id sample_src), Vm_map (db_id sample_src), Mutex_unlock])"
  let ?t = "[Mutex_lock, Dmabuf_alloc_drvdata 2, Get_dma_buf 2, Vm_map 2,
               Dmabuf_alloc_drvdata 1, Get_dma_buf 1, Vm_map 1, Mutex_unlock,
               Busy, Mutex_lock, Free_channel 0, Kfree 0, Kfree 0, Gmmu_unmap 0 0x10000,
               Request_firmware, Mutex_unlock, Idle]"
  have r1: "fst ?r = Failure ENOSYS"
    by (simp add: gk20a_cde_reload_def pool_eval zero_app_def zero_ctx_def sample_config_def
        sample_gr_def env_timedout_def env_ok_def sample_src_def sample_dst_def)
  have r2: "snd (snd ?r) = ?t"
    by (simp add: gk20a_cde_reload_def pool_eval zero_app_def zero_ctx_def sample_config_def
        sample_gr_def env_timedout_def env_ok_def sample_src_def sample_dst_def)
  from r1 r2 have r: "?r = (Failure ENOSYS, fst (snd ?r), ?t)"
    by (metis prod.collapse)
  from convert_reload_failure_keeps_mappings [OF a b c z d e z f r, of 0 0 0 0 "[]"]
  show ?thesis by simp
qed

section \<open>Launch geometry\<close>

text \<open>
  Rounding up to a multiple of a power of two gives a multiple of it, also when the sum or
  the product wraps around; so on the locals that the function computes the test never
  fires.
\<close>

lemma int32_dvd:
  assumes "d dvd 2 ^ 31" and "d dvd x"
  shows "d dvd int32 x"
proof -
  have "(2 ^ 32 :: int) = 2 * 2 ^ 31" by simp
  with assms(1) have p: "d dvd (2 ^ 32 :: int)" by (simp only: dvd_mult)
  have "int32 x = (x + 2 ^ 31) - 2 ^ 32 * ((x + 2 ^ 31) div 2 ^ 32) - 2 ^ 31"
    unfolding int32_def by (simp add: minus_mult_div_eq_mod)
  also have "d dvd \<dots>"
    using assms p by (intro dvd_diff dvd_add dvd_mult2) auto
  finally show ?thesis .
qed

lemma int32_small: "- (2 ^ 31) \<le> x \<Longrightarrow> x < 2 ^ 31 \<Longrightarrow> int32 x = x"
  unfolding int32_def by (simp add: mod_pos_pos_trivial)

lemma dvd_smod_zero: "d dvd m \<Longrightarrow> m smod d = (0 :: int)"
  by (auto simp: signed_modulo_int_def)

lemma sdiv_4_of_64: "(k * 64) sdiv (4::int) = k * 16"
proof -
  have "sgn k * \<bar>k\<bar> = k" by (rule mult_sgn_abs)
  then have "sgn k * (\<bar>k\<bar> * 16) = k * 16" by (simp flip: mult.assoc)
  then show ?thesis
    by (simp add: signed_divide_int_def abs_mult sgn_mult)
qed

lemma roundup_dvd: "y dvd 2 ^ 31 \<Longrightarrow> y dvd roundup x y"
  unfolding roundup_def by (rule int32_dvd) simp_all

lemma tilepitch_multiple: "tilepitch (launch_geometry t w h) smod 16 = 0"
proof -
  have "(64 :: int) dvd 2 ^ 31" by simp
  then have "64 dvd roundup (xtiles (launch_geometry t w h)) 64" by (rule roundup_dvd)
  then obtain k where k: "roundup (xtiles (launch_geometry t w h)) 64 = k * 64"
    by (auto simp: dvd_def mult.commute)
  have "tilepitch (launch_geometry t w h) = roundup (xtiles (launch_geometry t w h)) 64 sdiv 4"
    by (simp add: launch_geometry_def Let_def wgx_def compbits_per_byte_def)
  with k have "tilepitch (launch_geometry t w h) = k * 16" by (simp add: sdiv_4_of_64)
  then show ?thesis by (simp add: dvd_smod_zero)
qed

lemma ytilesaligned_multiple: "ytilesaligned (launch_geometry t w h) smod 8 = 0"
proof -
  have "(8 :: int) dvd 2 ^ 31" by simp
  then have "8 dvd roundup (ytiles (launch_geometry t w h)) 8" by (rule roundup_dvd)
  moreover have "ytilesaligned (launch_geometry t w h) = roundup (ytiles (launch_geometry t w h)) 8"
    by (simp add: launch_geometry_def Let_def wgy_def)
  ultimately show ?thesis by (simp add: dvd_smod_zero)
qed

lemma geometry_check_passes: "geometry_check (launch_geometry t w h) = Success"
  by (simp add: geometry_check_def wgx_def wgy_def tilepitch_multiple ytilesaligned_multiple)

lemma sint_128: "sint (128 :: u32) = 128"
  by simp

lemma sint_64: "sint (64 :: u32) = 64"
  by simp

lemma launch_geometry_128_64_value:
  "launch_geometry False 128 64
     = \<lparr>xtiles = 16, ytiles = 8, tilepitch = 16, ytilesaligned = 8, gridw = 1, gridh = 1\<rparr>"
  unfolding launch_geometry_def roundup_def wgx_def wgy_def compbits_per_byte_def Let_def
    signed_divide_int_def int32_def
  by (simp only: sint_128 sint_64 if_False) simp

text \<open>A width at which the sum \<open>transposed_width + 7\<close> wraps around.\<close>

lemma launch_geometry_wraps:
  "xtiles (launch_geometry False 0x7FFFFFF9 64) = - 268435456"
  unfolding launch_geometry_def Let_def int32_def
  by simp

lemma patch_params_len:
  "gk20a_cde_patch_params cfg env g ctx tr = (r, ctx', tr') \<Longrightarrow> length tr \<le> length tr'"
  using patch_params_trace [of cfg env g ctx tr] by auto

lemma execute_buffer_len:
  "gk20a_cde_execute_buffer env op fence flags ctx tr = (r, f, tr') \<Longrightarrow>
   length tr \<le> length tr'"
  using execute_buffer_trace [of env op fence flags ctx tr] by auto

lemma exit_unlock_len:
  "exit_unlock err f dva sva app tr = (r, f', app', tr') \<Longrightarrow> length tr < length tr'"
  by (auto simp: exit_unlock_def)

lemma convert_submit_len:
  "convert_submit cfg env g i src dva sva off sz f fl ps app tr = (r, f', app', tr') \<Longrightarrow>
   length tr < length tr'"
  by (auto simp: convert_submit_def Let_def reset_channel_def
      split: if_splits prod.splits status.splits
      dest!: patch_params_len execute_buffer_len exit_unlock_len)

lemma cde_convert_len:
  "gk20a_cde_convert cfg env g src dst off sz f fl ps app tr = (r, f', app', tr') \<Longrightarrow>
   length tr \<le> length tr'"
  by (auto simp: gk20a_cde_convert_def Let_def
      split: if_splits prod.splits status.splits
      dest!: cde_reload_len convert_submit_len exit_unlock_len)

lemma launch_convert_len:
  "launch_convert cfg env g dmabuf transposed geo off bh fl f app tr = (r, f', app', tr') \<Longrightarrow>
   length tr < length tr'"
  by (auto simp: launch_convert_def Let_def split: prod.splits status.splits
      dest!: init_cde_support_len cde_convert_len)

text \<open>
  Claim C9. With \<open>NVHOST_GPU_COMPBITS_CDEH\<close> as the consumer (a value other than
  \<open>NVHOST_GPU_COMPBITS_CDEV\<close>), a width of \<open>128\<close> and a height of \<open>64\<close>,
  \<open>gk20a_buffer_convert_gpu_to_cde\<close> computes without transposition \<open>xtiles = 16\<close>,
  \<open>ytiles = 8\<close> and a grid of \<open>(1, 1)\<close> for the work group \<open>(16, 8)\<close>, passes the
  test and goes on to the conversion with these values. For every consumer and size the
  function is the test on the locals it computes followed by the conversion; and the test
  returns \<open>-EINVAL\<close> at once, with nothing called and the pool untouched, exactly when
  the tile pitch is not a multiple of \<open>16\<close> or the aligned number of tile rows is not a
  multiple of \<open>8\<close>.
\<close>

theorem buffer_convert_geometry:
  assumes "NVHOST_GPU_COMPBITS_CDEH cfg \<noteq> NVHOST_GPU_COMPBITS_CDEV cfg"
  shows "gk20a_buffer_convert_gpu_to_cde cfg env g dmabuf (NVHOST_GPU_COMPBITS_CDEH cfg)
           off 128 64 bh fl f app tr
         = launch_convert cfg env g dmabuf False
             \<lparr>xtiles = 16, ytiles = 8, tilepitch = 16, ytilesaligned = 8, gridw = 1, gridh = 1\<rparr>
             off bh fl f app tr \<and>
         wgx = 16 \<and> wgy = 8 \<and>
         gk20a_buffer_convert_gpu_to_cde cfg env g dmabuf consumer off w h bh fl f app tr
         = checked_launch cfg env g dmabuf (consumer = NVHOST_GPU_COMPBITS_CDEV cfg)
             (launch_geometry (consumer = NVHOST_GPU_COMPBITS_CDEV cfg) w h)
             off bh fl f app tr \<and>
         (checked_launch cfg env g dmabuf transposed geo off bh fl f app tr
            = (Failure EINVAL, 0, app, tr))
         = (tilepitch geo smod 16 \<noteq> 0 \<or> ytilesaligned geo smod 8 \<noteq> 0)"
proof (intro conjI)
  have c: "geometry_check
             \<lparr>xtiles = 16, ytiles = 8, tilepitch = 16, ytilesaligned = 8, gridw = 1, gridh = 1\<rparr>
           = Success"
    by (simp add: geometry_check_def wgx_def wgy_def signed_modulo_int_def)
  from assms show "gk20a_buffer_convert_gpu_to_cde cfg env g dmabuf
           (NVHOST_GPU_COMPBITS_CDEH cfg) off 128 64 bh fl f app tr
         = launch_convert cfg env g dmabuf False
             \<lparr>xtiles = 16, ytiles = 8, tilepitch = 16, ytilesaligned = 8, gridw = 1, gridh = 1\<rparr>
             off bh fl f app tr"
    by (simp add: gk20a_buffer_convert_gpu_to_cde_def checked_launch_def
        launch_geometry_128_64_value c)
  show "wgx = 16" by (simp add: wgx_def)
  show "wgy = 8" by (simp add: wgy_def)
  show "gk20a_buffer_convert_gpu_to_cde cfg env g dmabuf consumer off w h bh fl f app tr
         = checked_launch cfg env g dmabuf (consumer = NVHOST_GPU_COMPBITS_CDEV cfg)
             (launch_geometry (consumer = NVHOST_GPU_COMPBITS_CDEV cfg) w h)
             off bh fl f app tr"
    by (simp add: gk20a_buffer_convert_gpu_to_cde_def Let_def)
  show "(checked_launch cfg env g dmabuf transposed geo off bh fl f app tr
            = (Failure EINVAL, 0, app, tr))
         = (tilepitch geo smod 16 \<noteq> 0 \<or> ytilesaligned geo smod 8 \<noteq> 0)"
  proof (cases "geometry_check geo")
    case Success
    then have n: "\<not> (tilepitch geo smod 16 \<noteq> 0 \<or> ytilesaligned geo smod 8 \<noteq> 0)"
      by (auto simp: geometry_check_def wgx_def wgy_def split: if_splits)
    have "launch_convert cfg env g dmabuf transposed geo off bh fl f app tr
            \<noteq> (Failure EINVAL, 0, app, tr)"
      using launch_convert_len [of cfg env g dmabuf transposed geo off bh fl f app tr
              "Failure EINVAL" 0 app tr]
      by auto
    with Success n show ?thesis by (simp add: checked_launch_def)
  next
    case (Failure e)
    then have "e = EINVAL \<and> (tilepitch geo smod 16 \<noteq> 0 \<or> ytilesaligned geo smod 8 \<noteq> 0)"
      by (auto simp: geometry_check_def wgx_def wgy_def split: if_splits)
    with Failure show ?thesis by (simp add: checked_launch_def)
  qed
qed

theorem buffer_convert_geometry_witness:
  "NVHOST_GPU_COMPBITS_CDEH sample_config \<noteq> NVHOST_GPU_COMPBITS_CDEV sample_config \<and>
   gk20a_buffer_convert_gpu_to_cde sample_config env_ok sample_gr sample_dst
       (NVHOST_GPU_COMPBITS_CDEH sample_config) 0 128 64 0 0 0 loaded_app []
     = launch_convert sample_config env_ok sample_gr sample_dst False
         \<lparr>xtiles = 16, ytiles = 8, tilepitch = 16, ytilesaligned = 8, gridw = 1, gridh = 1\<rparr>
         0 0 0 0 loaded_app [] \<and>
   tilepitch sample_geometry smod 16 = 1 \<and>
   checked_launch sample_config env_ok sample_gr sample_dst False sample_geometry
       0 0 0 0 loaded_app []
     = (Failure EINVAL, 0, loaded_app, [])"
proof -
  have a: "NVHOST_GPU_COMPBITS_CDEH sample_config \<noteq> NVHOST_GPU_COMPBITS_CDEV sample_config"
    by (simp add: sample_config_def)
  have b: "tilepitch sample_geometry smod 16 = 1"
    by (simp add: sample_geometry_def signed_modulo_int_def)
  then have c: "tilepitch sample_geometry smod 16 \<noteq> 0" by simp
  from buffer_convert_geometry [OF a, of env_ok sample_gr sample_dst 0 0 0 0 loaded_app "[]"
         _ _ _ False sample_geometry] a b c
  show ?thesis by blast
qed

end
